theory Spec2Isabelle
  imports Main
begin

section \<open>Python values, type descriptors and exceptions\<close>

text \<open>
  The record types of \<^verbatim>\<open>datamodel\<close> are Python classes built by the metaclass
  \<^verbatim>\<open>ModelMeta\<close> (abstract.py) and driven by \<^verbatim>\<open>BaseModel\<close> (base.py).  The code is
  duck-typed: it inspects type objects (\<^verbatim>\<open>__module__\<close>, \<^verbatim>\<open>__args__\<close>, \<^verbatim>\<open>is_dataclass\<close>)
  and values (\<^verbatim>\<open>callable\<close>, \<^verbatim>\<open>isinstance\<close>, \<^verbatim>\<open>str\<close>).  Type objects and values are
  datatypes here, one constructor per shape the code tells apart.
\<close>

datatype callkind = FunctionType | BuiltinFunctionType | Partial | OtherCallable

datatype excname = ExTypeError | ExValueError | ExAttributeError | ExRuntimeError | ExOther

datatype tydesc =
    TClass string
  | TDataclass string
  | TRecord string
  | TEnum string "pyval list"
  | TTyping string "tydesc list option"
  | TTypingFn string "tydesc option"
  | TAlias string "tydesc list"
  | TNewType string tydesc
and pyval =
    PNone
  | PMissing
  | PBool bool
  | PInt int
  | PStr string
  | PUUID string
  | PList "pyval list"
  | PDict "(string \<times> pyval) list"
  | PType tydesc
  | PFunc callkind string callres
  | PInst string "(string \<times> pyval) list"
  | PObj string string
and callres = Returns pyval | Raises excname

text \<open>
  \<^item> \<open>TClass n\<close>: an ordinary class (\<^verbatim>\<open>str\<close>, \<^verbatim>\<open>int\<close>, \<^verbatim>\<open>_MISSING_TYPE\<close>), metaclass \<^verbatim>\<open>type\<close>;
  \<^item> \<open>TDataclass n\<close>: a plain \<^verbatim>\<open>@dataclass\<close> class; \<open>TRecord n\<close>: a record type, a
    dataclass whose metaclass is \<^verbatim>\<open>ModelMeta\<close>; \<open>TEnum n vs\<close>: an \<^verbatim>\<open>EnumMeta\<close> class
    with member values \<open>vs\<close>;
  \<^item> \<open>TTyping n args\<close>: a generic of the \<^verbatim>\<open>typing\<close> module with \<^verbatim>\<open>_name\<close> \<open>n\<close> and
    \<^verbatim>\<open>__args__\<close> (\<open>None\<close>: no such attribute); \<open>TTypingFn n sup\<close>: a function object
    defined in \<^verbatim>\<open>typing\<close>, with its \<^verbatim>\<open>__supertype__\<close> if it has one;
  \<^item> \<open>TAlias n args\<close>: a parameterized builtin such as \<^verbatim>\<open>list[R]\<close>, whose \<^verbatim>\<open>__module__\<close>
    is that of its origin; \<open>TNewType n sup\<close>: a \<^verbatim>\<open>NewType\<close> object outside \<^verbatim>\<open>typing\<close>;
  \<^item> \<open>PMissing\<close>: the sentinel \<^verbatim>\<open>dataclasses.MISSING\<close>, the one instance of
    \<^verbatim>\<open>_MISSING_TYPE\<close>; \<open>PType t\<close>: a type object used as a value;
  \<^item> \<open>PFunc k m r\<close>: a callable of kind \<open>k\<close> whose \<^verbatim>\<open>__module__\<close> is \<open>m\<close> and which,
    called without arguments, returns or raises as \<open>r\<close> says;
  \<^item> \<open>PInst n kv\<close>: an instance of the dataclass \<open>n\<close>; \<open>PObj c s\<close>: any other object,
    of class \<open>c\<close>, with \<^verbatim>\<open>str()\<close> equal to \<open>s\<close>.
\<close>

datatype error =
    TypeError string
  | ValueError string
  | AttributeError string
  | RuntimeError string
  | IndexError string
  | KeyError string
  | ValidationError string "(string \<times> pyval) list"
  | OtherError string string

text \<open>\<^verbatim>\<open>str(ex)\<close> of an exception built from one message.\<close>

fun str_error :: "error \<Rightarrow> string" where
  "str_error (TypeError m) = m"
| "str_error (ValueError m) = m"
| "str_error (AttributeError m) = m"
| "str_error (RuntimeError m) = m"
| "str_error (IndexError m) = m"
| "str_error (KeyError m) = m"
| "str_error (ValidationError m p) = m"
| "str_error (OtherError c m) = m"

text \<open>The exception a zero-argument call raises, as a value of \<open>error\<close>.\<close>

fun raised :: "excname \<Rightarrow> error" where
  "raised ExTypeError = TypeError []"
| "raised ExValueError = ValueError []"
| "raised ExAttributeError = AttributeError []"
| "raised ExRuntimeError = RuntimeError []"
| "raised ExOther = OtherError ''Exception'' []"

definition MISSING_TYPE :: pyval where
  "MISSING_TYPE = PType (TClass ''_MISSING_TYPE'')"

text \<open>The builtin \<^verbatim>\<open>callable(value)\<close>: functions and type objects are callable.\<close>

fun callable :: "pyval \<Rightarrow> bool" where
  "callable (PFunc k m r) = True"
| "callable (PType t) = True"
| "callable v = False"

text \<open>The builtin \<^verbatim>\<open>type(value)\<close>.\<close>

fun type_of :: "pyval \<Rightarrow> tydesc" where
  "type_of PNone = TClass ''NoneType''"
| "type_of PMissing = TClass ''_MISSING_TYPE''"
| "type_of (PBool b) = TClass ''bool''"
| "type_of (PInt i) = TClass ''int''"
| "type_of (PStr s) = TClass ''str''"
| "type_of (PUUID u) = TClass ''UUID''"
| "type_of (PList xs) = TClass ''list''"
| "type_of (PDict kv) = TClass ''dict''"
| "type_of (PType (TClass n)) = TClass ''type''"
| "type_of (PType (TDataclass n)) = TClass ''type''"
| "type_of (PType (TRecord n)) = TClass ''ModelMeta''"
| "type_of (PType (TEnum n vs)) = TClass ''EnumMeta''"
| "type_of (PType (TTyping n args)) = TClass ''_GenericAlias''"
| "type_of (PType (TTypingFn n st)) = TClass ''function''"
| "type_of (PType (TAlias n args)) = TClass ''GenericAlias''"
| "type_of (PType (TNewType n st)) = TClass ''NewType''"
| "type_of (PFunc FunctionType m r) = TClass ''function''"
| "type_of (PFunc BuiltinFunctionType m r) = TClass ''builtin_function_or_method''"
| "type_of (PFunc Partial m r) = TClass ''partial''"
| "type_of (PFunc OtherCallable m r) = TClass ''method''"
| "type_of (PInst n kv) = TRecord n"
| "type_of (PObj c s) = TClass c"

text \<open>Truth value of an object, as \<^verbatim>\<open>if error:\<close> tests it.\<close>

fun truthy :: "pyval \<Rightarrow> bool" where
  "truthy PNone = False"
| "truthy (PBool b) = b"
| "truthy (PInt i) = (i \<noteq> 0)"
| "truthy (PStr s) = (s \<noteq> [])"
| "truthy (PList xs) = (xs \<noteq> [])"
| "truthy (PDict kv) = (kv \<noteq> [])"
| "truthy v = True"

section \<open>Field descriptors, configuration and objects\<close>

text \<open>
  A \<^verbatim>\<open>Field\<close> (datamodel.fields, a subclass of \<^verbatim>\<open>dataclasses.Field\<close>) always has the
  attributes \<^verbatim>\<open>default\<close> and \<^verbatim>\<open>default_factory\<close>, \<open>PMissing\<close> when unset; its
  \<^verbatim>\<open>metadata\<close> is an open mapping.
\<close>

record field =
  fname :: string
  ftype :: tydesc
  fdefault :: pyval
  fdefault_factory :: pyval
  fmetadata :: "(string \<times> pyval) list"
  frepr :: pyval

text \<open>
  The class \<^verbatim>\<open>Meta\<close> of abstract.py.  \<^verbatim>\<open>ModelMeta.__new__\<close> fills a key its \<^verbatim>\<open>Meta\<close>
  class lacks with \<^verbatim>\<open>None\<close>, and the code tests the flags with \<^verbatim>\<open>is True\<close> and
  \<^verbatim>\<open>is False\<close>, so \<open>strict\<close> and \<open>frozen\<close> are values, not booleans.  \<open>meta_title\<close> and
  \<open>meta_no_nesting\<close> are the optional attributes read with \<^verbatim>\<open>getattr\<close>/\<^verbatim>\<open>hasattr\<close>.
\<close>

record meta =
  meta_name :: string
  meta_description :: string
  meta_schema :: pyval
  meta_frozen :: pyval
  meta_strict :: pyval
  meta_title :: "string option"
  meta_no_nesting :: bool

text \<open>
  An object \<^verbatim>\<open>self\<close> together with the state of its class that the methods read and
  write: \<open>columns\<close> is \<^verbatim>\<open>__columns__\<close> (the ordered registry), \<open>field_names\<close> is
  \<^verbatim>\<open>__fields__\<close>, \<open>dataclass_fields\<close> is \<^verbatim>\<open>__dataclass_fields__\<close>, \<open>attrs\<close> is the
  instance's own attribute dictionary.
\<close>

record obj =
  modelName :: string
  doc :: "string option"
  Meta :: meta
  columns :: "(string \<times> field) list"
  field_names :: "string list"
  dataclass_fields :: "(string \<times> field) list"
  attrs :: "string \<rightharpoonup> pyval"

text \<open>\<^verbatim>\<open>d[k] = v\<close> on an insertion-ordered dictionary.\<close>

fun dict_set :: "string \<Rightarrow> 'v \<Rightarrow> (string \<times> 'v) list \<Rightarrow> (string \<times> 'v) list" where
  "dict_set k v [] = [(k, v)]"
| "dict_set k v ((k', v') # kvs) =
     (if k' = k then (k, v) # kvs else (k', v') # dict_set k v kvs)"

text \<open>\<^verbatim>\<open>d.get(k, default)\<close>.\<close>

definition dict_get :: "(string \<times> 'v) list \<Rightarrow> string \<Rightarrow> 'v \<Rightarrow> 'v" where
  "dict_get d k dflt = (case map_of d k of None \<Rightarrow> dflt | Some v \<Rightarrow> v)"

text \<open>
  The collaborators that are not part of abstract.py and base.py are parameters:
  \<^item> \<open>Field_new required default\<close>: the constructor \<^verbatim>\<open>Field(required=.., default=..)\<close>;
  \<^item> \<open>parse_type\<close>: the Type Converter \<^verbatim>\<open>parse_type(type, value, encoder)\<close>;
  \<^item> \<open>validator\<close>: the Field-level Validator \<^verbatim>\<open>validator(f, name, value, type)\<close>;
  \<^item> \<open>construct\<close>: calling a type object, \<^verbatim>\<open>T(**kwargs)\<close> or \<^verbatim>\<open>T(*args)\<close>;
  \<^item> \<open>repr_type\<close>: the text of a type object inside an f-string;
  \<^item> \<open>dunder_name\<close>: the attribute \<^verbatim>\<open>__name__\<close> of a type object, \<open>None\<close> when it has
    none (which generics have one depends on the interpreter);
  \<^item> \<open>JSON_TYPES\<close> and \<open>Text\<close>: the table and the type of datamodel.types;
  \<^item> \<open>slugify_camelcase\<close>: of datamodel.converters;
  \<^item> \<open>nested_schema\<close>: \<^verbatim>\<open>T.schema(as_dict=True)\<close> of another record type \<open>T\<close>;
  \<^item> \<open>dumps kwargs doc\<close>: \<^verbatim>\<open>cls.__encoder__(**kwargs).dumps(doc, option=OPT_INDENT_2)\<close>;
  \<^item> \<open>json_encoder\<close>: of datamodel.parsers.encoders.
  Each returns \<open>Inl\<close> of the exception it raises.
\<close>

datatype ctor_args = Kwargs "(string \<times> pyval) list" | Args "pyval list"

record env =
  Field_new :: "pyval \<Rightarrow> pyval \<Rightarrow> error + field"
  parse_type :: "tydesc \<Rightarrow> pyval \<Rightarrow> pyval \<Rightarrow> error + pyval"
  validator :: "field \<Rightarrow> string \<Rightarrow> pyval \<Rightarrow> tydesc \<Rightarrow> error + pyval"
  construct :: "tydesc \<Rightarrow> ctor_args \<Rightarrow> error + pyval"
  repr_type :: "tydesc \<Rightarrow> string"
  dunder_name :: "tydesc \<Rightarrow> string option"
  JSON_TYPES :: "tydesc \<Rightarrow> string option"
  Text :: tydesc
  slugify_camelcase :: "string \<Rightarrow> error + string"
  nested_schema :: "tydesc \<Rightarrow> error + pyval"
  dumps :: "(string \<times> pyval) list \<Rightarrow> pyval \<Rightarrow> error + pyval"
  json_encoder :: "pyval \<Rightarrow> error + pyval"

text \<open>
  A method that writes to \<^verbatim>\<open>self\<close> returns the object as the call leaves it, paired
  with \<open>Inl\<close> of the exception raised or \<open>Inr\<close> of the value returned.
\<close>

type_synonym 'a res = "obj \<times> (error + 'a)"

section \<open>Attribute interception (abstract.py)\<close>

text \<open>
  \<^verbatim>\<open>_dc_method_setattr_\<close>, installed as \<^verbatim>\<open>__setattr__\<close> of every record type by
  \<^verbatim>\<open>create_dataclass\<close>.  \<^verbatim>\<open>object.__setattr__\<close> is the update of \<open>attrs\<close>.  On a type
  that is not strict an unknown name is registered and the write is repeated by the
  inner \<^verbatim>\<open>setattr(self, name, value)\<close>, which then finds the name in \<^verbatim>\<open>__fields__\<close>.
  The value the function returns (\<^verbatim>\<open>False\<close> or \<^verbatim>\<open>None\<close>) is dropped by the assignment
  statement and is \<open>()\<close> here.
\<close>

function dc_method_setattr :: "env \<Rightarrow> obj \<Rightarrow> string \<Rightarrow> pyval \<Rightarrow> unit res" where
  "dc_method_setattr E self name value =
     (if meta_frozen (Meta self) = PBool True \<and> name \<notin> set (field_names self) then
        (self, Inl (TypeError (''Cannot add New attribute '' @ name @ '' on '' @ modelName self
               @ '', This DataClass is frozen (read-only class)'')))
      else
        let value = (if callable value then PNone else value);
            self = self\<lparr>attrs := (attrs self)(name \<mapsto> value)\<rparr>
        in if name \<notin> set (field_names self) then
             if meta_strict (Meta self) = PBool True then (self, Inr ())
             else (case Field_new E (PBool False) value of
                     Inl err \<Rightarrow> (self, Inl err)
                   | Inr f \<Rightarrow>
                       dc_method_setattr E
                         (self\<lparr>columns := dict_set name
                                   (f\<lparr>fname := name, ftype := type_of value\<rparr>) (columns self),
                               field_names := field_names self @ [name]\<rparr>)
                         name value)
           else (self, Inr ()))"
  by pat_completeness auto
termination
  by (relation "measure (\<lambda>(E, self, name, value). if name \<in> set (field_names self) then 0 else 1)")
     auto

declare dc_method_setattr.simps [simp del]

section \<open>Dynamic fields (base.py)\<close>

text \<open>\<^verbatim>\<open>BaseModel.add_field\<close>, a class method: only the class state is touched.\<close>

definition add_field :: "env \<Rightarrow> obj \<Rightarrow> string \<Rightarrow> pyval \<Rightarrow> unit res" where
  "add_field E cls name value =
     (if meta_strict (Meta cls) = PBool True then
        (cls, Inl (TypeError (''Cannot create a new field '' @ name @ '' on a Strict Model.'')))
      else if name \<noteq> ''__errors__'' then
        (case Field_new E (PBool False) value of
           Inl err \<Rightarrow> (cls, Inl err)
         | Inr f \<Rightarrow>
             let f = f\<lparr>fname := name, ftype := type_of value\<rparr>
             in (cls\<lparr>columns := dict_set name f (columns cls),
                     dataclass_fields := dict_set name f (dataclass_fields cls)\<rparr>, Inr ()))
      else (cls, Inr ()))"

text \<open>\<^verbatim>\<open>BaseModel.create_field\<close>.\<close>

definition create_field :: "env \<Rightarrow> obj \<Rightarrow> string \<Rightarrow> pyval \<Rightarrow> unit res" where
  "create_field E self name value =
     (if meta_strict (Meta self) = PBool True then
        (self, Inl (TypeError (''Cannot create a new field '' @ name @ '' on a Strict Model.'')))
      else if name \<noteq> ''__errors__'' then
        (case Field_new E (PBool False) value of
           Inl err \<Rightarrow> (self, Inl err)
         | Inr f \<Rightarrow>
             let f = f\<lparr>fname := name, ftype := type_of value\<rparr>
             in dc_method_setattr E
                  (self\<lparr>columns := dict_set name f (columns self),
                        dataclass_fields := dict_set name f (dataclass_fields self)\<rparr>)
                  name value)
      else (self, Inr ()))"

text \<open>\<^verbatim>\<open>BaseModel.set\<close>.\<close>

definition set_value :: "env \<Rightarrow> obj \<Rightarrow> string \<Rightarrow> pyval \<Rightarrow> unit res" where
  "set_value E self name value =
     (if name \<notin> fst ` set (columns self) then
        if name \<noteq> ''__errors__'' \<and> meta_strict (Meta self) = PBool False then
          create_field E self name value
        else (self, Inr ())
      else dc_method_setattr E self name value)"

section \<open>Coercion (base.py)\<close>

text \<open>\<^verbatim>\<open>BaseModel.is_callable\<close>: a function, builtin or partial, and not \<^verbatim>\<open>_MISSING_TYPE\<close>.\<close>

definition is_callable :: "pyval \<Rightarrow> bool" where
  "is_callable value =
     (let is_missing = (value = MISSING_TYPE);
          is_function = (case value of
                           PFunc k m r \<Rightarrow> k = FunctionType \<or> k = BuiltinFunctionType \<or> k = Partial
                         | _ \<Rightarrow> False)
      in if \<not> is_missing \<and> is_function then callable value else False)"

text \<open>
  \<^verbatim>\<open>str(value) == ''\<close>: of the values modelled, only the empty string and an object
  whose \<^verbatim>\<open>__str__\<close> gives the empty string.
\<close>

fun str_is_empty :: "pyval \<Rightarrow> bool" where
  "str_is_empty (PStr s) = (s = [])"
| "str_is_empty (PObj c s) = (s = [])"
| "str_is_empty v = False"

text \<open>\<^verbatim>\<open>BaseModel.is_empty\<close>.\<close>

definition is_empty :: "pyval \<Rightarrow> bool" where
  "is_empty value =
     (if value = PMissing then True
      else if value = MISSING_TYPE then True
      else if value = PNone then True
      else if str_is_empty value then True
      else False)"

text \<open>\<^verbatim>\<open>dataclasses.is_dataclass\<close> on a type object.\<close>

fun is_dataclass :: "tydesc \<Rightarrow> bool" where
  "is_dataclass (TDataclass n) = True"
| "is_dataclass (TRecord n) = True"
| "is_dataclass t = False"

text \<open>\<^verbatim>\<open>t.__module__ == 'typing'\<close>.\<close>

fun module_is_typing :: "tydesc \<Rightarrow> bool" where
  "module_is_typing (TTyping n args) = True"
| "module_is_typing (TTypingFn n st) = True"
| "module_is_typing t = False"

text \<open>\<^verbatim>\<open>t.__args__\<close>; \<open>None\<close> when the attribute does not exist.\<close>

fun ty_args :: "tydesc \<Rightarrow> tydesc list option" where
  "ty_args (TTyping n args) = args"
| "ty_args (TAlias n args) = Some args"
| "ty_args t = None"

text \<open>\<^verbatim>\<open>isinstance(value, (int, str, UUID))\<close>; \<^verbatim>\<open>bool\<close> is a subclass of \<^verbatim>\<open>int\<close>.\<close>

fun is_int_str_uuid :: "pyval \<Rightarrow> bool" where
  "is_int_str_uuid (PBool b) = True"
| "is_int_str_uuid (PInt i) = True"
| "is_int_str_uuid (PStr s) = True"
| "is_int_str_uuid (PUUID u) = True"
| "is_int_str_uuid v = False"

fun is_AttributeError :: "error \<Rightarrow> bool" where
  "is_AttributeError (AttributeError m) = True"
| "is_AttributeError e = False"

fun is_TypeError :: "error \<Rightarrow> bool" where
  "is_TypeError (TypeError m) = True"
| "is_TypeError e = False"

fun is_ValueError :: "error \<Rightarrow> bool" where
  "is_ValueError (ValueError m) = True"
| "is_ValueError e = False"

fun is_RuntimeError :: "error \<Rightarrow> bool" where
  "is_RuntimeError (RuntimeError m) = True"
| "is_RuntimeError e = False"

text \<open>
  The list comprehension
  \<^verbatim>\<open>[sub_type(**item) if isinstance(item, dict) else item for item in value]\<close>;
  the first constructor call that raises ends it.
\<close>

fun build_items :: "env \<Rightarrow> tydesc \<Rightarrow> pyval list \<Rightarrow> error + pyval list" where
  "build_items E sub_type [] = Inr []"
| "build_items E sub_type (item # rest) =
     (case (case item of PDict kv \<Rightarrow> construct E sub_type (Kwargs kv) | _ \<Rightarrow> Inr item) of
        Inl e \<Rightarrow> Inl e
      | Inr x \<Rightarrow>
          (case build_items E sub_type rest of
             Inl e \<Rightarrow> Inl e
           | Inr xs \<Rightarrow> Inr (x # xs)))"

text \<open>
  The branch of \<^verbatim>\<open>_calculate_value\<close> for a type that is a dataclass: the new value,
  or the exception of the nested constructor.
\<close>

definition nested_value :: "env \<Rightarrow> obj \<Rightarrow> pyval \<Rightarrow> field \<Rightarrow> error + pyval" where
  "nested_value E self value f =
     (if meta_no_nesting (Meta self) then Inr value
      else if value = PNone then Inr PNone
      else (case value of
              PDict kv \<Rightarrow> construct E (ftype f) (Kwargs kv)
            | PList xs \<Rightarrow> construct E (ftype f) (Args xs)
            | _ \<Rightarrow> if is_int_str_uuid value then Inr value
                   else construct E (ftype f) (Args [value])))"

text \<open>
  The last part of \<^verbatim>\<open>_calculate_value\<close>, "Handle empty values with defaults": the
  \<^verbatim>\<open>try\<close> covers the converter and the write, and wraps a \<^verbatim>\<open>TypeError\<close> or
  \<^verbatim>\<open>ValueError\<close> of either.
\<close>

definition wrong_type :: "env \<Rightarrow> string \<Rightarrow> field \<Rightarrow> error \<Rightarrow> error" where
  "wrong_type E key f ex =
     (if is_TypeError ex \<or> is_ValueError ex then
        ValueError (''Wrong Type for '' @ key @ '': '' @ repr_type E (ftype f)
                    @ '', error: '' @ str_error ex)
      else ex)"

definition default_or_parse :: "env \<Rightarrow> obj \<Rightarrow> string \<Rightarrow> pyval \<Rightarrow> field \<Rightarrow> unit res" where
  "default_or_parse E self key value f =
     (if is_empty value then
        let is_missing = (fdefault f = PMissing)
        in dc_method_setattr E self key (if is_missing then fdefault_factory f else fdefault f)
      else
        (case parse_type E (ftype f) value (dict_get (fmetadata f) ''encoder'' PNone) of
           Inl ex \<Rightarrow> (self, Inl (wrong_type E key f ex))
         | Inr new_val \<Rightarrow>
             (case dc_method_setattr E self key new_val of
                (self', Inl ex) \<Rightarrow> (self', Inl (wrong_type E key f ex))
              | (self', Inr u) \<Rightarrow> (self', Inr ()))))"

text \<open>
  \<^verbatim>\<open>BaseModel._calculate_value\<close>.  In the list branch the \<^verbatim>\<open>try\<close> catches an
  \<^verbatim>\<open>AttributeError\<close> of \<^verbatim>\<open>f.type.__args__\<close>, of a constructor or of the write; its
  handler stores the raw list and falls through to the last part.  \<^verbatim>\<open>__args__[0]\<close> of
  an empty tuple raises \<^verbatim>\<open>IndexError\<close>, which nothing catches.
\<close>

definition calculate_value :: "env \<Rightarrow> obj \<Rightarrow> string \<Rightarrow> pyval \<Rightarrow> field \<Rightarrow> unit res" where
  "calculate_value E self key value f =
     (if is_callable value then (self, Inr ())
      else if is_dataclass (ftype f) then
        (case nested_value E self value f of
           Inl e \<Rightarrow> (self, Inl e)
         | Inr new_val \<Rightarrow> dc_method_setattr E self key new_val)
      else if module_is_typing (ftype f) then
        (case parse_type E (ftype f) value (dict_get (fmetadata f) ''encoder'' PNone) of
           Inl e \<Rightarrow> (self, Inl e)
         | Inr new_val \<Rightarrow> dc_method_setattr E self key new_val)
      else
        (case value of
           PList items \<Rightarrow>
             (case ty_args (ftype f) of
                None \<Rightarrow>
                  (case dc_method_setattr E self key value of
                     (self', Inl e) \<Rightarrow> (self', Inl e)
                   | (self', Inr u) \<Rightarrow> default_or_parse E self' key value f)
              | Some [] \<Rightarrow> (self, Inl (IndexError ''tuple index out of range''))
              | Some (sub_type # ts) \<Rightarrow>
                  if is_dataclass sub_type then
                    (case build_items E sub_type items of
                       Inl e \<Rightarrow>
                         if is_AttributeError e then
                           (case dc_method_setattr E self key value of
                              (self', Inl e') \<Rightarrow> (self', Inl e')
                            | (self', Inr u) \<Rightarrow> default_or_parse E self' key value f)
                         else (self, Inl e)
                     | Inr new_items \<Rightarrow>
                         (case dc_method_setattr E self key (PList new_items) of
                            (self', Inl e) \<Rightarrow>
                              if is_AttributeError e then
                                (case dc_method_setattr E self' key value of
                                   (self'', Inl e') \<Rightarrow> (self'', Inl e')
                                 | (self'', Inr u) \<Rightarrow> default_or_parse E self'' key value f)
                              else (self', Inl e)
                          | (self', Inr u) \<Rightarrow> (self', Inr ())))
                  else default_or_parse E self key value f)
         | _ \<Rightarrow> default_or_parse E self key value f))"

section \<open>Validation (base.py)\<close>

text \<open>
  A zero-argument call \<^verbatim>\<open>v()\<close>: a function returns or raises as it says, a type object
  is instantiated, anything else is not callable.
\<close>

definition call0 :: "env \<Rightarrow> pyval \<Rightarrow> error + pyval" where
  "call0 E v =
     (case v of
        PFunc k m (Returns x) \<Rightarrow> Inr x
      | PFunc k m (Raises x) \<Rightarrow> Inl (raised x)
      | PType t \<Rightarrow> construct E t (Args [])
      | _ \<Rightarrow> Inl (TypeError ''object is not callable''))"

text \<open>\<^verbatim>\<open>value.__module__\<close> of a callable.\<close>

fun module_of :: "pyval \<Rightarrow> string" where
  "module_of (PFunc k m r) = m"
| "module_of v = []"

text \<open>
  The first block of \<^verbatim>\<open>_validation\<close>, "Fix values of Data based on Default factory",
  entered when the value is a genuine callable.  A \<^verbatim>\<open>TypeError\<close> of \<^verbatim>\<open>value()\<close> falls
  back to \<^verbatim>\<open>f.default()\<close>, a \<^verbatim>\<open>TypeError\<close> of that to \<^verbatim>\<open>None\<close>; a \<^verbatim>\<open>TypeError\<close> of
  the write is logged and \<^verbatim>\<open>None\<close> written instead.
\<close>

definition fix_from_factory :: "env \<Rightarrow> obj \<Rightarrow> string \<Rightarrow> pyval \<Rightarrow> field \<Rightarrow> unit res" where
  "fix_from_factory E self name value f =
     (if module_of value \<noteq> ''typing'' then
        (case (case call0 E value of
                 Inl e \<Rightarrow>
                   if is_TypeError e then
                     (case call0 E (fdefault f) of
                        Inl e' \<Rightarrow> if is_TypeError e' then Inr PNone else Inl e'
                      | Inr v \<Rightarrow> Inr v)
                   else Inl e
               | Inr v \<Rightarrow> Inr v) of
           Inl e \<Rightarrow> (self, Inl e)
         | Inr new_val \<Rightarrow>
             (case dc_method_setattr E self name new_val of
                (self', Inl ex) \<Rightarrow>
                  if is_TypeError ex then dc_method_setattr E self' name PNone
                  else (self', Inl ex)
              | (self', Inr u) \<Rightarrow> (self', Inr ())))
      else (self, Inr ()))"

text \<open>
  The checks of \<^verbatim>\<open>_validation\<close> on a value that is a bare type, equals the declared
  type or is empty: primary, required, nullable, each inside its own
  \<^verbatim>\<open>try: ... except KeyError: pass\<close>.  \<open>Inr PNone\<close> is the method returning \<^verbatim>\<open>None\<close>.
\<close>

definition structural_checks :: "obj \<Rightarrow> string \<Rightarrow> field \<Rightarrow> error + pyval" where
  "structural_checks self name f =
     (if map_of (fmetadata f) ''primary'' = Some (PBool True)
         \<and> ''db_default'' \<notin> fst ` set (fmetadata f) then
        Inl (ValueError (''::'' @ modelName self @ '':: Missing Primary Key *'' @ name @ ''*''))
      else if map_of (fmetadata f) ''required'' = Some (PBool True)
              \<and> meta_strict (Meta self) = PBool True then
        if ''db_default'' \<in> fst ` set (fmetadata f) then Inr PNone
        else Inl (ValueError (''::'' @ modelName self @ '':: Missing Required Field *''
                              @ name @ ''*''))
      else if map_of (fmetadata f) ''nullable'' = Some (PBool False)
              \<and> meta_strict (Meta self) = PBool True then
        Inl (ValueError (''::'' @ modelName self @ '':: Cannot null *'' @ name @ ''*''))
      else Inr PNone)"

text \<open>
  The second and third block of \<^verbatim>\<open>_validation\<close>: a callable default materializes a
  \<^verbatim>\<open>None\<close> value, then the value is classified.  \<open>val_type\<close> is the type of the value
  the method was called with.
\<close>

definition classify :: "env \<Rightarrow> obj \<Rightarrow> string \<Rightarrow> pyval \<Rightarrow> tydesc \<Rightarrow> field \<Rightarrow> pyval res" where
  "classify E self name value val_type f =
     (if val_type = TClass ''type'' \<or> value = PType (ftype f) \<or> is_empty value then
        (self, structural_checks self name f)
      else (self, validator E f name value (ftype f)))"

definition default_for_none :: "env \<Rightarrow> obj \<Rightarrow> string \<Rightarrow> pyval \<Rightarrow> field \<Rightarrow> pyval res" where
  "default_for_none E self name value f =
     (if is_callable (fdefault f) \<and> value = PNone then
        (case (case call0 E (fdefault f) of
                 Inl e \<Rightarrow> if is_AttributeError e \<or> is_RuntimeError e then Inr PNone else Inl e
               | Inr v \<Rightarrow> Inr v) of
           Inl e \<Rightarrow> (self, Inl e)
         | Inr new_val \<Rightarrow>
             (case dc_method_setattr E self name new_val of
                (self', Inl e) \<Rightarrow> (self', Inl e)
              | (self', Inr u) \<Rightarrow> classify E self' name new_val (type_of value) f))
      else classify E self name value (type_of value) f)"

text \<open>\<^verbatim>\<open>BaseModel._validation\<close>: the error of the field, or \<^verbatim>\<open>None\<close>.\<close>

definition validation :: "env \<Rightarrow> obj \<Rightarrow> string \<Rightarrow> pyval \<Rightarrow> field \<Rightarrow> pyval res" where
  "validation E self name value f =
     (if is_callable value then
        (case fix_from_factory E self name value f of
           (self', Inl e) \<Rightarrow> (self', Inl e)
         | (self', Inr u) \<Rightarrow> default_for_none E self' name value f)
      else default_for_none E self name value f)"

section \<open>Construction (base.py)\<close>

text \<open>
  \<^verbatim>\<open>getattr(self, name)\<close>: \<open>attrs\<close> holds every attribute the lookup finds; a name it
  lacks raises \<^verbatim>\<open>AttributeError\<close>.
\<close>

definition getattr :: "obj \<Rightarrow> string \<Rightarrow> error + pyval" where
  "getattr self name =
     (case attrs self name of
        None \<Rightarrow> Inl (AttributeError name)
      | Some v \<Rightarrow> Inr v)"

text \<open>
  One turn of the loop of \<^verbatim>\<open>__post_init__\<close>: coercion, then validation inside
  \<^verbatim>\<open>try: ... except RuntimeError\<close>, which logs the exception and goes on.
\<close>

definition field_step ::
  "env \<Rightarrow> field \<Rightarrow> obj \<Rightarrow> (string \<times> pyval) list \<Rightarrow> (string \<times> pyval) list res" where
  "field_step E f self errors =
     (case getattr self (fname f) of
        Inl e \<Rightarrow> (self, Inl e)
      | Inr value \<Rightarrow>
          (case calculate_value E self (fname f) value f of
             (self1, Inl e) \<Rightarrow> (self1, Inl e)
           | (self1, Inr u) \<Rightarrow>
               (case getattr self1 (fname f) of
                  Inl e \<Rightarrow> if is_RuntimeError e then (self1, Inr errors) else (self1, Inl e)
                | Inr value' \<Rightarrow>
                    (case validation E self1 (fname f) value' f of
                       (self2, Inl e) \<Rightarrow>
                         if is_RuntimeError e then (self2, Inr errors) else (self2, Inl e)
                     | (self2, Inr error) \<Rightarrow>
                         (self2, Inr (if truthy error then dict_set (fname f) error errors
                                      else errors))))))"

text \<open>The loop \<^verbatim>\<open>for _, f in self.__columns__.items()\<close>.\<close>

fun post_init_loop ::
  "env \<Rightarrow> (string \<times> field) list \<Rightarrow> obj \<Rightarrow> (string \<times> pyval) list
     \<Rightarrow> (string \<times> pyval) list res" where
  "post_init_loop E [] self errors = (self, Inr errors)"
| "post_init_loop E ((k, f) # rest) self errors =
     (case field_step E f self errors of
        (self', Inl e) \<Rightarrow> (self', Inl e)
      | (self', Inr errors') \<Rightarrow> post_init_loop E rest self' errors')"

text \<open>
  \<^verbatim>\<open>BaseModel.__post_init__\<close>, which the generated \<^verbatim>\<open>__init__\<close> calls once the raw
  values are stored: an exception here is construction failing, a return is the
  constructed instance.
\<close>

definition post_init :: "env \<Rightarrow> obj \<Rightarrow> unit res" where
  "post_init E self =
     (case post_init_loop E (columns self) self [] of
        (self', Inl e) \<Rightarrow> (self', Inl e)
      | (self', Inr errors) \<Rightarrow>
          if errors \<noteq> [] then
            if meta_strict (Meta self') = PBool True then
              (self', Inl (ValidationError
                 (modelName self' @ '': There are errors in your Model. Hint: please check the ''
                    @ [CHR 0x22] @ ''payload'' @ [CHR 0x22] @ '' attribute in the exception.'')
                 errors))
            else
              (case dc_method_setattr E self' ''__errors__'' (PDict errors) of
                 (self'', Inl e) \<Rightarrow> (self'', Inl e)
               | (self'', Inr u) \<Rightarrow>
                   (self''\<lparr>attrs := (attrs self'')(''__valid__'' \<mapsto> PBool False)\<rparr>, Inr ()))
          else (self'\<lparr>attrs := (attrs self')(''__valid__'' \<mapsto> PBool True)\<rparr>, Inr ()))"



section \<open>Introspection (base.py)\<close>

text \<open>\<^verbatim>\<open>str.lower\<close>, \<^verbatim>\<open>str.strip\<close> and \<^verbatim>\<open>str.split\<close> on ASCII text.\<close>

definition lower_char :: "char \<Rightarrow> char" where
  "lower_char c =
     (let n = (of_char c :: nat) in if 65 \<le> n \<and> n \<le> 90 then char_of (n + 32) else c)"

definition lower :: "string \<Rightarrow> string" where
  "lower s = map lower_char s"

definition strip_chars :: "char list \<Rightarrow> string \<Rightarrow> string" where
  "strip_chars cs s =
     rev (dropWhile (\<lambda>c. c \<in> set cs) (rev (dropWhile (\<lambda>c. c \<in> set cs) s)))"

definition whitespace :: "char list" where
  "whitespace = map char_of [9, 10, 11, 12, 13, 28, 29, 30, 31, 32 :: nat]"

text \<open>\<^verbatim>\<open>cls.__doc__.strip("\n").strip()\<close>; \<^verbatim>\<open>None\<close> has no \<^verbatim>\<open>strip\<close>.\<close>

definition doc_text :: "obj \<Rightarrow> error + string" where
  "doc_text cls =
     (case doc cls of
        None \<Rightarrow> Inl (AttributeError ''strip'')
      | Some d \<Rightarrow> Inr (strip_chars whitespace (strip_chars [CHR 0x0A] d)))"

fun split_on :: "char \<Rightarrow> string \<Rightarrow> string list" where
  "split_on c [] = [[]]"
| "split_on c (x # xs) =
     (if x = c then [] # split_on c xs
      else (case split_on c xs of
              [] \<Rightarrow> [[x]]
            | p # ps \<Rightarrow> (x # p) # ps))"

text \<open>\<^verbatim>\<open>t._name\<close> of an object of the \<^verbatim>\<open>typing\<close> module; a function has none.\<close>

fun ty_name :: "tydesc \<Rightarrow> string option" where
  "ty_name (TTyping n args) = Some n"
| "ty_name t = None"

text \<open>The type name \<open>t\<close> that \<^verbatim>\<open>model\<close> computes for one field.\<close>

definition model_type :: "env \<Rightarrow> tydesc \<Rightarrow> error + string" where
  "model_type E ty =
     (if module_is_typing ty then
        (case ty_name ty of
           None \<Rightarrow> Inl (AttributeError ''_name'')
         | Some n \<Rightarrow>
             if n = ''List'' then Inr ''array''
             else if n = ''Dict'' then Inr ''object''
             else (case ty_args ty of
                     None \<Rightarrow> Inr ''object''
                   | Some [] \<Rightarrow> Inl (IndexError ''tuple index out of range'')
                   | Some (t # ts) \<Rightarrow>
                       (case dunder_name E t of
                          None \<Rightarrow> Inr ''object''
                        | Some m \<Rightarrow> Inr m)))
      else (case JSON_TYPES E ty of
              None \<Rightarrow> Inr ''object''
            | Some t \<Rightarrow> Inr t))"

fun model_columns ::
  "env \<Rightarrow> (string \<times> field) list \<Rightarrow> (string \<times> pyval) list \<Rightarrow> error + (string \<times> pyval) list" where
  "model_columns E [] cols = Inr cols"
| "model_columns E ((k, field) # rest) cols =
     (case model_type E (ftype field) of
        Inl e \<Rightarrow> Inl e
      | Inr t \<Rightarrow>
          model_columns E rest
            (dict_set (fname field)
               (PDict [(''name'', PStr (fname field)), (''type'', PStr t)]) cols))"

text \<open>
  \<^verbatim>\<open>BaseModel.model\<close>, a class method.  \<open>cols0\<close> is the mapping that
  \<^verbatim>\<open>cls.columns(cls)\<close> of \<^verbatim>\<open>ModelMixin\<close> returns; \<open>Inr PNone\<close> is the method returning
  \<^verbatim>\<open>None\<close>.
\<close>

definition model ::
  "env \<Rightarrow> obj \<Rightarrow> (string \<times> field) list \<Rightarrow> string \<Rightarrow> (string \<times> pyval) list \<Rightarrow> error + pyval" where
  "model E cls cols0 dialect kwargs =
     (let clsname = modelName cls;
          schema = meta_schema (Meta cls);
          table = (if meta_name (Meta cls) \<noteq> [] then meta_name (Meta cls) else lower clsname)
      in if dialect = ''json'' then
           (case model_columns E cols0 [] of
              Inl e \<Rightarrow> Inl e
            | Inr cols \<Rightarrow>
                (case doc_text cls of
                   Inl e \<Rightarrow> Inl e
                 | Inr description \<Rightarrow>
                     dumps E kwargs
                       (PDict [(''$schema'', PStr ''https://json-schema.org/draft/2020-12/schema''),
                               (''$id'', PStr (''/schemas/'' @ table)),
                               (''name'', PStr clsname),
                               (''description'', PStr description),
                               (''additionalProperties'', PBool False),
                               (''table'', PStr table),
                               (''schema'', schema),
                               (''type'', PStr ''object''),
                               (''properties'', PDict cols)])))
         else Inr PNone)"

text \<open>\<^verbatim>\<open>_get_type_info\<close>.\<close>

fun get_type_info :: "env \<Rightarrow> tydesc \<Rightarrow> string \<Rightarrow> string \<Rightarrow> error + pyval" where
  "get_type_info E (TTypingFn n (Some st)) name title = Inr (PType st)"
| "get_type_info E (TTypingFn n None) name title =
     Inl (ValueError (''You'' @ [CHR 0x27] @ ''re using bare Functions to type hint on ''
                      @ name @ '' for: '' @ title))"
| "get_type_info E (TTyping n args) name title =
     (if n = ''List'' then Inr (PStr ''array'')
      else if n = ''Dict'' then Inr (PStr ''object'')
      else (case args of
              None \<Rightarrow> Inr (PStr ''string'')
            | Some [] \<Rightarrow> Inl (IndexError ''tuple index out of range'')
            | Some (t # ts) \<Rightarrow>
                (case dunder_name E t of
                   None \<Rightarrow> Inr (PStr ''string'')
                 | Some m \<Rightarrow> Inr (PStr m))))"
| "get_type_info E (TNewType n st) name title =
     (if type_of (PType (TNewType n st)) = type_of (PType (Text E)) then Inr (PStr ''text'')
      else Inr (PStr (case JSON_TYPES E (TNewType n st) of None \<Rightarrow> ''string'' | Some s \<Rightarrow> s)))"
| "get_type_info E t name title =
     Inr (PStr (case JSON_TYPES E t of None \<Rightarrow> ''string'' | Some s \<Rightarrow> s))"

text \<open>\<^verbatim>\<open>_get_ref_info\<close>; \<open>Inr PNone\<close> is the function returning \<^verbatim>\<open>None\<close>.\<close>

definition get_ref_info :: "env \<Rightarrow> tydesc \<Rightarrow> field \<Rightarrow> error + pyval" where
  "get_ref_info E ty field =
     (case ty of
        TEnum n vs \<Rightarrow>
          Inr (PDict [(''type'', PStr ''array''),
                      (''enum_type'', PDict [(''type'', PStr ''string''), (''enum'', PList vs)])])
      | TRecord n \<Rightarrow>
          (case nested_schema E ty of
             Inl e \<Rightarrow> Inl e
           | Inr sch \<Rightarrow>
               (case (if ''fk'' \<in> fst ` set (fmetadata field) then
                        (case dict_get (fmetadata field) ''fk'' PNone of
                           PStr s \<Rightarrow> Inr (PList (map PStr (split_on (CHR ''|'') s)))
                         | _ \<Rightarrow> Inl (AttributeError ''split''))
                      else
                        (case sch of
                           PDict kv \<Rightarrow>
                             (case map_of kv ''$id'' of
                                None \<Rightarrow> Inl (KeyError ''$id'')
                              | Some v \<Rightarrow> Inr v)
                         | _ \<Rightarrow> Inl (TypeError ''object is not subscriptable''))) of
                  Inl e \<Rightarrow> Inl e
                | Inr ref \<Rightarrow>
                    Inr (PDict [(''type'', PStr ''object''), (''enum_type'', PNone),
                                (''schema'', sch), (''ref'', ref)])))
      | _ \<Rightarrow> Inr PNone)"

text \<open>The entry \<^verbatim>\<open>fields[name]\<close> that the loop of \<^verbatim>\<open>schema\<close> builds for one field.\<close>

definition schema_field :: "env \<Rightarrow> string \<Rightarrow> string \<Rightarrow> field \<Rightarrow> error + pyval" where
  "schema_field E title name field =
     (case get_type_info E (ftype field) name title of
        Inl e \<Rightarrow> Inl e
      | Inr type_info \<Rightarrow>
          (case get_ref_info E (ftype field) field of
             Inl e \<Rightarrow> Inl e
           | Inr ref_info \<Rightarrow>
               let md = fmetadata field;
                   minimum = dict_get md ''min'' PNone;
                   maximum = dict_get md ''max'' PNone;
                   secret = dict_get md ''secret'' PNone;
                   label = dict_get md ''label'' PNone;
                   a0 = [(''placeholder'', dict_get md ''description'' PNone),
                         (''format'', dict_get md ''format'' PNone)];
                   a1 = (if ''pattern'' \<in> fst ` set md
                         then dict_set ''pattern'' (dict_get md ''pattern'' PNone) a0 else a0);
                   a2 = (if frepr field = PBool False
                         then dict_set ''visible'' (PBool False) a1 else a1);
                   ref = (case ref_info of PDict kv \<Rightarrow> dict_get kv ''ref'' PNone | _ \<Rightarrow> PNone);
                   e0 = [(''type'', type_info),
                         (''nullable'', dict_get md ''nullable'' (PBool False)),
                         (''label'', label),
                         (''attrs'', PDict a2),
                         (''readOnly'', dict_get md ''readonly'' (PBool False)),
                         (''writeOnly'', PBool False)];
                   e1 = (if truthy ref then dict_set ''$ref'' ref e0 else e0);
                   e2 = dict_set ''default'' (fdefault field) e1;
                   e3 = (if secret \<noteq> PNone then dict_set ''secret'' secret e2 else e2);
                   lo = (if type_info = PStr ''string'' then ''minLength'' else ''minimum'');
                   hi = (if type_info = PStr ''string'' then ''maxLength'' else ''maximum'');
                   e4 = (if truthy minimum then dict_set lo minimum e3 else e3);
                   e5 = (if truthy maximum then dict_set hi maximum e4 else e4)
               in Inr (PDict e5)))"

fun schema_fields ::
  "env \<Rightarrow> string \<Rightarrow> (string \<times> field) list \<Rightarrow> (string \<times> pyval) list \<Rightarrow> pyval list
     \<Rightarrow> error + ((string \<times> pyval) list \<times> pyval list)" where
  "schema_fields E title [] props required = Inr (props, required)"
| "schema_fields E title ((name, field) # rest) props required =
     (case schema_field E title name field of
        Inl e \<Rightarrow> Inl e
      | Inr entry \<Rightarrow>
          schema_fields E title rest (dict_set name entry props)
            (if truthy (dict_get (fmetadata field) ''required'' (PBool False))
             then required @ [PStr name] else required))"

text \<open>
  \<^verbatim>\<open>BaseModel.schema\<close>, a class method.  \<open>cols0\<close> is the mapping that
  \<^verbatim>\<open>cls.get_columns()\<close> of \<^verbatim>\<open>ModelMixin\<close> returns.  \<^verbatim>\<open>defs\<close> stays empty, so no
  \<^verbatim>\<open>$defs\<close> key is added.
\<close>

definition schema :: "env \<Rightarrow> obj \<Rightarrow> (string \<times> field) list \<Rightarrow> bool \<Rightarrow> error + pyval" where
  "schema E cls cols0 as_dict =
     (let title0 = (case meta_title (Meta cls) of None \<Rightarrow> modelName cls | Some t \<Rightarrow> t);
          title = (case slugify_camelcase E title0 of Inl e \<Rightarrow> title0 | Inr t \<Rightarrow> t);
          sch = meta_schema (Meta cls);
          table = (if meta_name (Meta cls) \<noteq> [] then lower (meta_name (Meta cls))
                   else lower title)
      in case (if meta_description (Meta cls) \<noteq> [] then Inr (meta_description (Meta cls))
               else doc_text cls) of
           Inl e \<Rightarrow> Inl e
         | Inr description \<Rightarrow>
             (case schema_fields E title cols0 [] [] of
                Inl e \<Rightarrow> Inl e
              | Inr (props, required) \<Rightarrow>
                  let base_schema =
                    PDict [(''$schema'', PStr ''https://json-schema.org/draft/2020-12/schema''),
                           (''$id'', PStr (''/schemas/'' @ table)),
                           (''additionalProperties'', meta_strict (Meta cls)),
                           (''title'', PStr title),
                           (''description'', PStr description),
                           (''type'', PStr ''object''),
                           (''table'', PStr table),
                           (''schema'', sch),
                           (''properties'', PDict props),
                           (''required'', PList required)]
                  in if as_dict then Inr base_schema else json_encoder E base_schema))"

section \<open>Example record types\<close>

text \<open>
  Collaborators for the examples.  \<open>Field0\<close> builds a descriptor holding the default
  and the \<^verbatim>\<open>required\<close> flag; the validator finds nothing.  \<open>construct0\<close> is calling
  the class \<^verbatim>\<open>Person\<close> of the examples with keywords: the \<^verbatim>\<open>__init__\<close> that
  \<^verbatim>\<open>dataclass\<close> generates raises \<^verbatim>\<open>TypeError\<close> for a keyword that is not a field,
  \<^verbatim>\<open>__post_init__\<close> raises for a missing \<open>name\<close>, and otherwise the instance is
  returned.  \<open>parse_type0\<close> stands for the converter on the inputs of the examples: for
  a \<^verbatim>\<open>typing.List\<close> of a dataclass it constructs each mapping element with keywords,
  and the exception of a constructor is its own; any other value is returned as it is.
\<close>

definition Field0 :: "pyval \<Rightarrow> pyval \<Rightarrow> error + field" where
  "Field0 required dflt =
     Inr \<lparr>fname = [], ftype = TClass ''NoneType'', fdefault = dflt, fdefault_factory = PMissing,
          fmetadata = [(''required'', required)], frepr = PBool True\<rparr>"

fun construct0 :: "tydesc \<Rightarrow> ctor_args \<Rightarrow> error + pyval" where
  "construct0 (TRecord n) (Kwargs kv) =
     (if n = ''Person'' then
        (case filter (\<lambda>k. k \<noteq> ''name'' \<and> k \<noteq> ''age'') (map fst kv) of
           k # ks \<Rightarrow>
             Inl (TypeError (''Person.__init__() got an unexpected keyword argument ''
                             @ [CHR 0x27] @ k @ [CHR 0x27]))
         | [] \<Rightarrow>
             if dict_get kv ''name'' PNone = PNone then
               Inl (ValueError ''::Person:: Missing Required Field *name*'')
             else Inr (PInst ''Person'' [(''name'', dict_get kv ''name'' PNone),
                                         (''age'', dict_get kv ''age'' (PInt 0))]))
      else Inl (TypeError ''not a class of the examples''))"
| "construct0 t a = Inl (TypeError ''not a class of the examples'')"

fun construct_all :: "tydesc \<Rightarrow> pyval list \<Rightarrow> error + pyval list" where
  "construct_all t [] = Inr []"
| "construct_all t (item # rest) =
     (case (case item of PDict kv \<Rightarrow> construct0 t (Kwargs kv) | _ \<Rightarrow> Inr item) of
        Inl e \<Rightarrow> Inl e
      | Inr x \<Rightarrow>
          (case construct_all t rest of
             Inl e \<Rightarrow> Inl e
           | Inr xs \<Rightarrow> Inr (x # xs)))"

fun parse_type0 :: "tydesc \<Rightarrow> pyval \<Rightarrow> pyval \<Rightarrow> error + pyval" where
  "parse_type0 (TTyping n (Some (sub_type # ts))) (PList items) enc =
     (if n = ''List'' \<and> is_dataclass sub_type then
        (case construct_all sub_type items of
           Inl e \<Rightarrow> Inl e
         | Inr xs \<Rightarrow> Inr (PList xs))
      else Inr (PList items))"
| "parse_type0 t v enc = Inr v"

definition env0 :: env where
  "env0 = \<lparr>Field_new = Field0,
           parse_type = parse_type0,
           validator = (\<lambda>f n v t. Inr PNone),
           construct = construct0,
           repr_type = (\<lambda>t. case t of TTyping n a \<Rightarrow> ''typing.'' @ n | _ \<Rightarrow> ''<class>''),
           dunder_name = (\<lambda>t. case t of TClass n \<Rightarrow> Some n | TRecord n \<Rightarrow> Some n | _ \<Rightarrow> None),
           JSON_TYPES = (\<lambda>t. if t = TClass ''str'' then Some ''string''
                              else if t = TClass ''int'' then Some ''integer'' else None),
           Text = TNewType ''Text'' (TClass ''str''),
           slugify_camelcase = (\<lambda>s. Inr s),
           nested_schema = (\<lambda>t. Inr (PDict [(''$id'', PStr ''/schemas/nested'')])),
           dumps = (\<lambda>kw d. Inr d),
           json_encoder = (\<lambda>d. Inr d)\<rparr>"

text \<open>
  \<^verbatim>\<open>Person{name: str (required), age: int = 0}\<close>, the example of the specification,
  with the raw values \<open>name\<close> and \<open>age\<close> stored by the generated \<^verbatim>\<open>__init__\<close>.
\<close>

definition name_field :: field where
  "name_field = \<lparr>fname = ''name'', ftype = TClass ''str'', fdefault = PNone,
                  fdefault_factory = PMissing, fmetadata = [(''required'', PBool True)],
                  frepr = PBool True\<rparr>"

definition age_field :: field where
  "age_field = \<lparr>fname = ''age'', ftype = TClass ''int'', fdefault = PInt 0,
                 fdefault_factory = PMissing, fmetadata = [(''required'', PBool False)],
                 frepr = PBool True\<rparr>"

definition Person :: "pyval \<Rightarrow> pyval \<Rightarrow> pyval \<Rightarrow> pyval \<Rightarrow> obj" where
  "Person strict frozen name age =
     \<lparr>modelName = ''Person'', doc = Some ''A person.'',
      Meta = \<lparr>meta_name = [], meta_description = [], meta_schema = PStr ''public'',
              meta_frozen = frozen, meta_strict = strict, meta_title = None,
              meta_no_nesting = False\<rparr>,
      columns = [(''name'', name_field), (''age'', age_field)],
      field_names = [''name'', ''age''],
      dataclass_fields = [(''name'', name_field), (''age'', age_field)],
      attrs = [''name'' \<mapsto> name, ''age'' \<mapsto> age]\<rparr>"

text \<open>
  \<^verbatim>\<open>Team{tags: list = field(default_factory=list), members: list[Person]}\<close> and
  \<^verbatim>\<open>Squad{members: typing.List[Person]}\<close>, each with one raw value stored.
\<close>

definition tags_field :: field where
  "tags_field = \<lparr>fname = ''tags'', ftype = TClass ''list'', fdefault = PMissing,
                  fdefault_factory = PFunc BuiltinFunctionType ''builtins'' (Returns (PList [])),
                  fmetadata = [], frepr = PBool True\<rparr>"

definition members_field :: field where
  "members_field = \<lparr>fname = ''members'', ftype = TAlias ''list'' [TRecord ''Person''],
                     fdefault = PNone, fdefault_factory = PMissing, fmetadata = [],
                     frepr = PBool True\<rparr>"

definition squad_field :: field where
  "squad_field = \<lparr>fname = ''members'', ftype = TTyping ''List'' (Some [TRecord ''Person'']),
                   fdefault = PNone, fdefault_factory = PMissing, fmetadata = [],
                   frepr = PBool True\<rparr>"

definition single :: "string \<Rightarrow> pyval \<Rightarrow> field \<Rightarrow> pyval \<Rightarrow> obj" where
  "single cname strict f raw =
     \<lparr>modelName = cname, doc = Some cname,
      Meta = \<lparr>meta_name = [], meta_description = [], meta_schema = PStr ''public'',
              meta_frozen = PBool False, meta_strict = strict, meta_title = None,
              meta_no_nesting = False\<rparr>,
      columns = [(fname f, f)],
      field_names = [fname f],
      dataclass_fields = [(fname f, f)],
      attrs = [fname f \<mapsto> raw]\<rparr>"

text \<open>
  Two states of an object of the same class: the writes of the methods above change
  the attributes and the registry, never the configuration or the name.
\<close>

definition same_class :: "obj \<Rightarrow> obj \<Rightarrow> bool" where
  "same_class s s' = (Meta s' = Meta s \<and> modelName s' = modelName s)"

text \<open>\<open>Person\<close> constructed without a name: the generated \<^verbatim>\<open>__init__\<close> stores \<^verbatim>\<open>None\<close>.\<close>

definition ana_missing :: "pyval \<Rightarrow> obj" where
  "ana_missing strict = Person strict (PBool False) PNone (PInt 3)"

text \<open>What the list branch of \<^verbatim>\<open>_calculate_value\<close> makes of one element: a mapping is replaced
  by the instance its keyword construction returns, anything else stays as it is.\<close>

definition coerced_item :: "env \<Rightarrow> tydesc \<Rightarrow> pyval \<Rightarrow> pyval \<Rightarrow> bool" where
  "coerced_item E sub_type item x =
     (case item of
        PDict kv \<Rightarrow> construct E sub_type (Kwargs kv) = Inr x
      | _ \<Rightarrow> x = item)"

text \<open>\<^verbatim>\<open>Team(members=[{'name': 'Ana'}, Person(name='Bob')])\<close>.\<close>

definition team :: obj where
  "team = single ''Team'' (PBool True) members_field
            (PList [PDict [(''name'', PStr ''Ana'')],
                    PInst ''Person'' [(''name'', PStr ''Bob''), (''age'', PInt 0)]])"

text \<open>
  The strict \<^verbatim>\<open>Person(name='Ana', age=3)\<close>, and \<^verbatim>\<open>Team(members=[{'bogus': 1}])\<close> and
  \<^verbatim>\<open>Squad(members=[{'bogus': 1}])\<close>, whose one element has a key that is no field of
  \<open>Person\<close>.
\<close>

definition ana :: obj where
  "ana = Person (PBool True) (PBool False) (PStr ''Ana'') (PInt 3)"

definition team_bogus :: obj where
  "team_bogus = single ''Team'' (PBool True) members_field (PList [PDict [(''bogus'', PInt 1)]])"

definition squad :: "pyval \<Rightarrow> obj" where
  "squad strict = single ''Squad'' strict squad_field (PList [PDict [(''bogus'', PInt 1)]])"

section \<open>Attribute writes\<close>

lemma setattr_known:
  assumes "name \<in> set (field_names self)"
  shows "dc_method_setattr E self name value =
     (self\<lparr>attrs := (attrs self)(name \<mapsto> (if callable value then PNone else value))\<rparr>, Inr ())"
  using assms by (simp add: dc_method_setattr.simps Let_def)

text \<open>
  C3, as the code has it: on a type with \<^verbatim>\<open>frozen=true\<close> a write to a name that is not
  a registered field fails with the frozen-record \<^verbatim>\<open>TypeError\<close> and changes nothing; a
  write to a registered field is applied (a callable is stored as \<^verbatim>\<open>None\<close>).
\<close>

theorem frozen_write_rejected_only_for_unknown:
  assumes "meta_frozen (Meta self) = PBool True"
  shows "dc_method_setattr E self name value =
     (if name \<in> set (field_names self)
      then (self\<lparr>attrs := (attrs self)(name \<mapsto> (if callable value then PNone else value))\<rparr>,
            Inr ())
      else (self, Inl (TypeError (''Cannot add New attribute '' @ name @ '' on ''
               @ modelName self @ '', This DataClass is frozen (read-only class)''))))"
  using assms by (simp add: dc_method_setattr.simps Let_def)

theorem frozen_write_rejected_only_for_unknown_witness:
  "meta_frozen (Meta (Person (PBool True) (PBool True) (PStr ''Ana'') (PInt 3))) = PBool True
   \<and> dc_method_setattr env0 (Person (PBool True) (PBool True) (PStr ''Ana'') (PInt 3))
        ''nick'' (PStr ''Annie'')
     = (Person (PBool True) (PBool True) (PStr ''Ana'') (PInt 3),
        Inl (TypeError ''Cannot add New attribute nick on Person, This DataClass is frozen (read-only class)''))"
  using frozen_write_rejected_only_for_unknown
          [of "Person (PBool True) (PBool True) (PStr ''Ana'') (PInt 3)" env0 "''nick''"
              "PStr ''Annie''"]
  by (simp add: Person_def)

text \<open>
  C3 as stated fails: on the frozen \<open>Person\<close> the write \<^verbatim>\<open>p.name = 'Bob'\<close> to the
  registered field \<open>name\<close> raises nothing and stores the value.
\<close>

theorem frozen_write_known_field_counterexample:
  "snd (dc_method_setattr env0 (Person (PBool True) (PBool True) (PStr ''Ana'') (PInt 3))
         ''name'' (PStr ''Bob'')) = Inr ()
   \<and> attrs (fst (dc_method_setattr env0 (Person (PBool True) (PBool True) (PStr ''Ana'') (PInt 3))
         ''name'' (PStr ''Bob''))) ''name'' = Some (PStr ''Bob'')"
  by (simp add: dc_method_setattr.simps Person_def Let_def)

text \<open>
  C4, as the code has it: on a type that is strict and not frozen, a write to a name
  that is not registered raises nothing; the value (\<^verbatim>\<open>None\<close> for a callable) is stored
  on the instance and the registry is left as it was.  \<^verbatim>\<open>set(name, value)\<close> with such
  a name does nothing at all.
\<close>

theorem strict_unknown_write_applied:
  assumes "meta_frozen (Meta self) \<noteq> PBool True"
    and "meta_strict (Meta self) = PBool True"
    and "name \<notin> set (field_names self)"
    and "name \<notin> fst ` set (columns self)"
  shows "dc_method_setattr E self name value =
           (self\<lparr>attrs := (attrs self)(name \<mapsto> (if callable value then PNone else value))\<rparr>,
            Inr ())
         \<and> set_value E self name value = (self, Inr ())"
  using assms by (simp add: dc_method_setattr.simps set_value_def Let_def)

theorem strict_unknown_write_applied_witness:
  "meta_frozen (Meta (Person (PBool True) (PBool False) (PStr ''Ana'') (PInt 3))) \<noteq> PBool True
   \<and> meta_strict (Meta (Person (PBool True) (PBool False) (PStr ''Ana'') (PInt 3))) = PBool True
   \<and> ''nick'' \<notin> set (field_names (Person (PBool True) (PBool False) (PStr ''Ana'') (PInt 3)))
   \<and> ''nick'' \<notin> fst ` set (columns (Person (PBool True) (PBool False) (PStr ''Ana'') (PInt 3)))
   \<and> set_value env0 (Person (PBool True) (PBool False) (PStr ''Ana'') (PInt 3))
        ''nick'' (PStr ''Annie'')
     = (Person (PBool True) (PBool False) (PStr ''Ana'') (PInt 3), Inr ())"
  using strict_unknown_write_applied
          [of "Person (PBool True) (PBool False) (PStr ''Ana'') (PInt 3)" "''nick''" env0
              "PStr ''Annie''"]
  by (simp add: Person_def)

text \<open>
  C4 as stated fails: on the strict, non-frozen \<open>Person\<close> the write
  \<^verbatim>\<open>p.nick = 'Annie'\<close> raises nothing and the instance then has the attribute.
\<close>

theorem strict_unknown_write_counterexample:
  "snd (dc_method_setattr env0 (Person (PBool True) (PBool False) (PStr ''Ana'') (PInt 3))
         ''nick'' (PStr ''Annie'')) = Inr ()
   \<and> attrs (fst (dc_method_setattr env0 (Person (PBool True) (PBool False) (PStr ''Ana'') (PInt 3))
         ''nick'' (PStr ''Annie''))) ''nick'' = Some (PStr ''Annie'')"
  by (simp add: dc_method_setattr.simps Person_def Let_def)

section \<open>The name \<^verbatim>\<open>__errors__\<close>\<close>

text \<open>
  C9, as the code has it: no dynamic field operation registers \<^verbatim>\<open>__errors__\<close>, and
  each leaves the registry as it was.  On a strict type \<^verbatim>\<open>add_field\<close> and
  \<^verbatim>\<open>create_field\<close> raise \<^verbatim>\<open>TypeError\<close>, as they do for every name; on any other type
  they return without raising.  \<^verbatim>\<open>set\<close> returns without raising, on an object whose
  \<^verbatim>\<open>__fields__\<close> has the name whenever \<^verbatim>\<open>__columns__\<close> has it.
\<close>

theorem errors_name_never_registered:
  assumes "''__errors__'' \<notin> fst ` set (columns self) \<or> ''__errors__'' \<in> set (field_names self)"
  shows "add_field E self ''__errors__'' value =
           (self, if meta_strict (Meta self) = PBool True
                  then Inl (TypeError ''Cannot create a new field __errors__ on a Strict Model.'')
                  else Inr ())
         \<and> create_field E self ''__errors__'' value =
           (self, if meta_strict (Meta self) = PBool True
                  then Inl (TypeError ''Cannot create a new field __errors__ on a Strict Model.'')
                  else Inr ())
         \<and> snd (set_value E self ''__errors__'' value) = Inr ()
         \<and> columns (fst (set_value E self ''__errors__'' value)) = columns self
         \<and> field_names (fst (set_value E self ''__errors__'' value)) = field_names self
         \<and> dataclass_fields (fst (set_value E self ''__errors__'' value)) = dataclass_fields self"
proof -
  have a: "add_field E self ''__errors__'' value =
           (self, if meta_strict (Meta self) = PBool True
                  then Inl (TypeError ''Cannot create a new field __errors__ on a Strict Model.'')
                  else Inr ())"
    by (simp add: add_field_def)
  have c: "create_field E self ''__errors__'' value =
           (self, if meta_strict (Meta self) = PBool True
                  then Inl (TypeError ''Cannot create a new field __errors__ on a Strict Model.'')
                  else Inr ())"
    by (simp add: create_field_def)
  have s: "snd (set_value E self ''__errors__'' value) = Inr ()
         \<and> columns (fst (set_value E self ''__errors__'' value)) = columns self
         \<and> field_names (fst (set_value E self ''__errors__'' value)) = field_names self
         \<and> dataclass_fields (fst (set_value E self ''__errors__'' value)) = dataclass_fields self"
  proof (cases "''__errors__'' \<in> fst ` set (columns self)")
    case True
    with assms have "''__errors__'' \<in> set (field_names self)" by simp
    then show ?thesis using True by (simp add: set_value_def setattr_known)
  next
    case False
    then show ?thesis by (simp add: set_value_def)
  qed
  from a c s show ?thesis by simp
qed

theorem errors_name_never_registered_witness:
  "''__errors__'' \<notin> fst ` set (columns (Person (PBool False) (PBool False) (PStr ''Ana'') (PInt 3)))
   \<and> add_field env0 (Person (PBool False) (PBool False) (PStr ''Ana'') (PInt 3)) ''__errors__'' (PInt 1)
     = (Person (PBool False) (PBool False) (PStr ''Ana'') (PInt 3), Inr ())
   \<and> columns (fst (set_value env0 (Person (PBool False) (PBool False) (PStr ''Ana'') (PInt 3))
                     ''__errors__'' (PInt 1)))
     = [(''name'', name_field), (''age'', age_field)]"
  using errors_name_never_registered
          [of "Person (PBool False) (PBool False) (PStr ''Ana'') (PInt 3)" env0 "PInt 1"]
  by (simp add: Person_def)

text \<open>
  C9 as stated fails: on the strict \<open>Person\<close>, \<^verbatim>\<open>add_field('__errors__', 1)\<close> does not
  skip the name silently, it raises \<^verbatim>\<open>TypeError\<close>.
\<close>

theorem errors_name_strict_counterexample:
  "add_field env0 (Person (PBool True) (PBool False) (PStr ''Ana'') (PInt 3)) ''__errors__'' (PInt 1)
   = (Person (PBool True) (PBool False) (PStr ''Ana'') (PInt 3),
      Inl (TypeError ''Cannot create a new field __errors__ on a Strict Model.''))"
  by (simp add: add_field_def Person_def)

section \<open>Rendering\<close>

text \<open>
  C10: for every record type, \<^verbatim>\<open>model(dialect=d)\<close> with a dialect other than
  \<^verbatim>\<open>"json"\<close> returns \<^verbatim>\<open>None\<close>: no document, no exception.
\<close>

theorem model_other_dialect_is_None:
  assumes "dialect \<noteq> ''json''"
  shows "model E cls cols0 dialect kwargs = Inr PNone"
  using assms by (simp add: model_def Let_def)

theorem model_other_dialect_is_None_witness:
  "''sql'' \<noteq> ''json''
   \<and> model env0 (Person (PBool True) (PBool False) (PStr ''Ana'') (PInt 3))
        [(''name'', name_field), (''age'', age_field)] ''sql'' [] = Inr PNone"
  using model_other_dialect_is_None
          [of "''sql''" env0 "Person (PBool True) (PBool False) (PStr ''Ana'') (PInt 3)"
              "[(''name'', name_field), (''age'', age_field)]" "[]"]
  by simp

section \<open>What the writes preserve\<close>

lemma same_class_refl [simp]: "same_class s s"
  by (simp add: same_class_def)

lemma same_class_trans: "same_class s s' \<Longrightarrow> same_class s' s'' \<Longrightarrow> same_class s s''"
  by (simp add: same_class_def)

lemma same_class_attrs [simp]: "same_class s (s'\<lparr>attrs := a\<rparr>) = same_class s s'"
  by (simp add: same_class_def)

lemma setattr_same_class_fst: "same_class self (fst (dc_method_setattr E self name v))"
proof (induction E self name v rule: dc_method_setattr.induct)
  case (1 E self name v)
  show ?case
    apply (subst dc_method_setattr.simps)
    using 1
    apply (auto simp: Let_def same_class_def split: sum.splits)
    done
qed

lemma setattr_same_class: "dc_method_setattr E self name v = (self', r) \<Longrightarrow> same_class self self'"
  using setattr_same_class_fst [of self E name v] by simp

lemma default_or_parse_same_class:
  "default_or_parse E self key v f = (self', r) \<Longrightarrow> same_class self self'"
  by (auto simp: default_or_parse_def Let_def split: if_splits sum.splits prod.splits
           dest: setattr_same_class)

lemma calculate_value_same_class:
  "calculate_value E self key v f = (self', r) \<Longrightarrow> same_class self self'"
  unfolding calculate_value_def
  by (auto simp: same_class_def
           split: if_splits sum.splits prod.splits pyval.splits option.splits list.splits
           dest!: setattr_same_class default_or_parse_same_class)

lemma fix_from_factory_same_class:
  "fix_from_factory E self name v f = (self', r) \<Longrightarrow> same_class self self'"
  unfolding fix_from_factory_def
  by (auto simp: same_class_def split: if_splits sum.splits prod.splits
           dest!: setattr_same_class)

lemma classify_same_state: "classify E self name v t f = (self', r) \<Longrightarrow> self' = self"
  by (auto simp: classify_def split: if_splits)

lemma default_for_none_same_class:
  "default_for_none E self name v f = (self', r) \<Longrightarrow> same_class self self'"
  unfolding default_for_none_def
  by (auto simp: same_class_def split: if_splits sum.splits prod.splits
           dest!: setattr_same_class classify_same_state)

lemma validation_same_class:
  "validation E self name v f = (self', r) \<Longrightarrow> same_class self self'"
  unfolding validation_def
  by (auto simp: same_class_def split: if_splits sum.splits prod.splits
           dest!: fix_from_factory_same_class default_for_none_same_class)

lemma field_step_same_class:
  "field_step E f self errs = (self', r) \<Longrightarrow> same_class self self'"
  unfolding field_step_def
  by (auto simp: same_class_def split: if_splits sum.splits prod.splits
           dest!: calculate_value_same_class validation_same_class)

lemma post_init_loop_same_class:
  "post_init_loop E cs self errs = (self', r) \<Longrightarrow> same_class self self'"
proof (induction cs arbitrary: self errs)
  case Nil
  then show ?case by simp
next
  case (Cons c cs)
  obtain k f where c: "c = (k, f)" by (cases c)
  show ?case
  proof (cases "field_step E f self errs")
    case (Pair s1 r1)
    show ?thesis
    proof (cases r1)
      case (Inl e)
      with Cons.prems c Pair have "self' = s1" by simp
      with Pair show ?thesis by (auto dest: field_step_same_class)
    next
      case (Inr errs1)
      with Cons.prems c Pair have "post_init_loop E cs s1 errs1 = (self', r)" by simp
      then have "same_class s1 self'" by (rule Cons.IH)
      moreover have "same_class self s1" using Pair by (rule field_step_same_class)
      ultimately show ?thesis by (rule same_class_trans [rotated])
    qed
  qed
qed

lemma post_init_loop_append:
  "post_init_loop E (xs @ ys) self errs =
     (case post_init_loop E xs self errs of
        (self', Inl e) \<Rightarrow> (self', Inl e)
      | (self', Inr errs') \<Rightarrow> post_init_loop E ys self' errs')"
  by (induction xs arbitrary: self errs) (auto split: prod.splits sum.splits)

lemma is_empty_not_callable: "is_empty v \<Longrightarrow> \<not> is_callable v"
  by (cases v) (auto simp: is_empty_def is_callable_def MISSING_TYPE_def split: if_splits)

lemma is_empty_cases:
  "is_empty v = (v = PMissing \<or> v = MISSING_TYPE \<or> v = PNone \<or> v = PStr [] \<or> (\<exists>c. v = PObj c []))"
  by (cases v) (auto simp: is_empty_def MISSING_TYPE_def)

lemma validation_empty:
  assumes "is_empty v" and "\<not> (is_callable (fdefault f) \<and> v = PNone)"
  shows "validation E self name v f = (self, structural_checks self name f)"
  using assms is_empty_not_callable [of v]
  by (auto simp: validation_def default_for_none_def classify_def)


lemma is_empty_PList [simp]: "is_empty (PList xs) = False"
  by (simp add: is_empty_def MISSING_TYPE_def)

section \<open>What a write leaves alone\<close>

lemma setattr_closed:
  "dc_method_setattr E self name v =
     (if meta_frozen (Meta self) = PBool True \<and> name \<notin> set (field_names self) then
        (self, Inl (TypeError (''Cannot add New attribute '' @ name @ '' on '' @ modelName self
               @ '', This DataClass is frozen (read-only class)'')))
      else if name \<in> set (field_names self) \<or> meta_strict (Meta self) = PBool True then
        (self\<lparr>attrs := (attrs self)(name \<mapsto> (if callable v then PNone else v))\<rparr>, Inr ())
      else (case Field_new E (PBool False) (if callable v then PNone else v) of
              Inl err \<Rightarrow>
                (self\<lparr>attrs := (attrs self)(name \<mapsto> (if callable v then PNone else v))\<rparr>,
                 Inl err)
            | Inr f \<Rightarrow>
                (self\<lparr>attrs := (attrs self)(name \<mapsto> (if callable v then PNone else v)),
                      columns := dict_set name
                        (f\<lparr>fname := name, ftype := type_of (if callable v then PNone else v)\<rparr>)
                        (columns self),
                      field_names := field_names self @ [name]\<rparr>, Inr ())))"
  by (subst dc_method_setattr.simps) (auto simp: Let_def setattr_known split: sum.splits)

lemma setattr_attrs:
  "dc_method_setattr E self name v = (self', r) \<Longrightarrow> k \<noteq> name \<Longrightarrow> attrs self' k = attrs self k"
  by (auto simp: setattr_closed split: if_splits sum.splits)

lemma setattr_field_names:
  "dc_method_setattr E self name v = (self', r) \<Longrightarrow> n \<in> set (field_names self)
     \<Longrightarrow> n \<in> set (field_names self')"
  by (auto simp: setattr_closed split: if_splits sum.splits)

lemma default_or_parse_attrs:
  "default_or_parse E self key v f = (self', r) \<Longrightarrow> k \<noteq> key \<Longrightarrow> attrs self' k = attrs self k"
  by (auto simp: default_or_parse_def Let_def split: if_splits sum.splits prod.splits
           dest!: setattr_attrs [where k = k])

lemma default_or_parse_field_names:
  "default_or_parse E self key v f = (self', r) \<Longrightarrow> n \<in> set (field_names self)
     \<Longrightarrow> n \<in> set (field_names self')"
  by (auto simp: default_or_parse_def Let_def split: if_splits sum.splits prod.splits
           dest: setattr_field_names)

lemma calculate_value_attrs:
  "calculate_value E self key v f = (self', r) \<Longrightarrow> k \<noteq> key \<Longrightarrow> attrs self' k = attrs self k"
  unfolding calculate_value_def
  by (auto split: if_splits sum.splits prod.splits pyval.splits option.splits list.splits
           dest!: setattr_attrs [where k = k] default_or_parse_attrs [where k = k])

lemma calculate_value_field_names:
  "calculate_value E self key v f = (self', r) \<Longrightarrow> n \<in> set (field_names self)
     \<Longrightarrow> n \<in> set (field_names self')"
  unfolding calculate_value_def
  by (auto split: if_splits sum.splits prod.splits pyval.splits option.splits list.splits
           dest: setattr_field_names default_or_parse_field_names)

lemma validation_attrs:
  "validation E self name v f = (self', r) \<Longrightarrow> k \<noteq> name \<Longrightarrow> attrs self' k = attrs self k"
  unfolding validation_def default_for_none_def fix_from_factory_def classify_def
  by (auto split: if_splits sum.splits prod.splits
           dest!: setattr_attrs [where k = k])

lemma validation_field_names:
  "validation E self name v f = (self', r) \<Longrightarrow> n \<in> set (field_names self)
     \<Longrightarrow> n \<in> set (field_names self')"
  unfolding validation_def default_for_none_def fix_from_factory_def classify_def
  by (auto split: if_splits sum.splits prod.splits
           dest: setattr_field_names)

lemma field_step_attrs:
  "field_step E f self errs = (self', r) \<Longrightarrow> k \<noteq> fname f \<Longrightarrow> attrs self' k = attrs self k"
  unfolding field_step_def
  by (auto split: if_splits sum.splits prod.splits
           dest!: calculate_value_attrs [where k = k] validation_attrs [where k = k])

lemma field_step_field_names:
  "field_step E f self errs = (self', r) \<Longrightarrow> n \<in> set (field_names self)
     \<Longrightarrow> n \<in> set (field_names self')"
  unfolding field_step_def
  by (auto split: if_splits sum.splits prod.splits
           dest: calculate_value_field_names validation_field_names)

lemma post_init_loop_attrs:
  "post_init_loop E cs self errs = (self', r) \<Longrightarrow> k \<notin> (\<lambda>c. fname (snd c)) ` set cs
     \<Longrightarrow> attrs self' k = attrs self k"
proof (induction cs arbitrary: self errs)
  case Nil
  then show ?case by simp
next
  case (Cons c cs)
  obtain n f where c: "c = (n, f)" by (cases c)
  from Cons.prems(2) c have kf: "k \<noteq> fname f" and kcs: "k \<notin> (\<lambda>c. fname (snd c)) ` set cs"
    by auto
  show ?case
  proof (cases "field_step E f self errs")
    case (Pair s1 r1)
    then have a1: "attrs s1 k = attrs self k" using kf by (rule field_step_attrs)
    show ?thesis
    proof (cases r1)
      case (Inl e)
      with Cons.prems(1) c Pair have "self' = s1" by simp
      with a1 show ?thesis by simp
    next
      case (Inr errs1)
      with Cons.prems(1) c Pair have "post_init_loop E cs s1 errs1 = (self', r)" by simp
      then have "attrs self' k = attrs s1 k" using kcs by (rule Cons.IH)
      with a1 show ?thesis by simp
    qed
  qed
qed

lemma post_init_loop_field_names:
  "post_init_loop E cs self errs = (self', r) \<Longrightarrow> n \<in> set (field_names self)
     \<Longrightarrow> n \<in> set (field_names self')"
proof (induction cs arbitrary: self errs)
  case Nil
  then show ?case by simp
next
  case (Cons c cs)
  obtain m f where c: "c = (m, f)" by (cases c)
  show ?case
  proof (cases "field_step E f self errs")
    case (Pair s1 r1)
    then have a1: "n \<in> set (field_names s1)" using Cons.prems(2) by (rule field_step_field_names)
    show ?thesis
    proof (cases r1)
      case (Inl e)
      with Cons.prems(1) c Pair have "self' = s1" by simp
      with a1 show ?thesis by simp
    next
      case (Inr errs1)
      with Cons.prems(1) c Pair have "post_init_loop E cs s1 errs1 = (self', r)" by simp
      then show ?thesis using a1 by (rule Cons.IH)
    qed
  qed
qed

section \<open>Coercion\<close>

lemma calculate_value_empty:
  assumes "is_empty value"
    and "\<not> is_dataclass (ftype f)"
    and "\<not> module_is_typing (ftype f)"
    and "key \<in> set (field_names self)"
  shows "calculate_value E self key value f =
     (self\<lparr>attrs := (attrs self)(key \<mapsto>
         (if fdefault f = PMissing
          then (if callable (fdefault_factory f) then PNone else fdefault_factory f)
          else (if callable (fdefault f) then PNone else fdefault f)))\<rparr>, Inr ())"
proof -
  have nc: "\<not> is_callable value" using assms(1) by (rule is_empty_not_callable)
  have "calculate_value E self key value f = default_or_parse E self key value f"
    using nc assms(1,2,3)
    by (cases "value") (simp_all add: calculate_value_def)
  also have "\<dots> = dc_method_setattr E self key
                     (if fdefault f = PMissing then fdefault_factory f else fdefault f)"
    using assms(1) by (simp add: default_or_parse_def)
  finally show ?thesis using assms(4) by (simp add: setattr_known)
qed

text \<open>
  C5, as the code has it: for a registered field whose type is neither a dataclass
  nor a \<^verbatim>\<open>typing\<close> generic and whose raw value is empty, coercion never invokes the
  default factory.  It writes the default factory itself when the static default is
  the missing sentinel, the static default otherwise, and the attribute write stores
  \<^verbatim>\<open>None\<close> in place of a callable.
\<close>

theorem empty_value_default_not_invoked:
  assumes "is_empty value"
    and "\<not> is_dataclass (ftype f)"
    and "\<not> module_is_typing (ftype f)"
    and "key \<in> set (field_names self)"
  shows "calculate_value E self key value f =
     (self\<lparr>attrs := (attrs self)(key \<mapsto>
         (if fdefault f = PMissing
          then (if callable (fdefault_factory f) then PNone else fdefault_factory f)
          else (if callable (fdefault f) then PNone else fdefault f)))\<rparr>, Inr ())"
  using assms by (rule calculate_value_empty)

theorem empty_value_default_not_invoked_witness:
  "is_empty PNone \<and> fdefault tags_field = PMissing
   \<and> attrs (fst (calculate_value env0 (single ''Team'' (PBool True) tags_field PNone)
                   ''tags'' PNone tags_field)) ''tags'' = Some PNone"
  using empty_value_default_not_invoked
          [of PNone tags_field "''tags''" "single ''Team'' (PBool True) tags_field PNone" env0]
  by (simp add: is_empty_def MISSING_TYPE_def tags_field_def single_def)

text \<open>
  C5 as stated fails: \<open>tags\<close> has no static default and the default factory
  \<^verbatim>\<open>list\<close>, which returns \<^verbatim>\<open>[]\<close>; with the raw value \<^verbatim>\<open>None\<close> coercion stores \<^verbatim>\<open>None\<close>,
  not the factory's result, and construction ends with \<^verbatim>\<open>None\<close> still stored.
\<close>

theorem empty_value_factory_counterexample:
  "fdefault tags_field = PMissing
   \<and> call0 env0 (fdefault_factory tags_field) = Inr (PList [])
   \<and> attrs (fst (calculate_value env0 (single ''Team'' (PBool True) tags_field PNone)
                   ''tags'' PNone tags_field)) ''tags'' = Some PNone
   \<and> snd (post_init env0 (single ''Team'' (PBool True) tags_field PNone)) = Inr ()
   \<and> attrs (fst (post_init env0 (single ''Team'' (PBool True) tags_field PNone))) ''tags''
       = Some PNone"
  by (simp add: tags_field_def single_def call0_def calculate_value_def default_or_parse_def
        is_callable_def is_empty_def MISSING_TYPE_def dc_method_setattr.simps Let_def
        post_init_def field_step_def getattr_def validation_def default_for_none_def
        classify_def structural_checks_def)

section \<open>Required fields\<close>

lemma field_step_empty:
  assumes raw: "getattr self1 (fname f) = Inr raw"
    and calc: "calculate_value E self1 (fname f) raw f = (self2, Inr ())"
    and val: "getattr self2 (fname f) = Inr v"
    and empty: "is_empty v"
    and dflt: "\<not> (is_callable (fdefault f) \<and> v = PNone)"
  shows "field_step E f self1 errs =
     (case structural_checks self2 (fname f) f of
        Inl e \<Rightarrow> if is_RuntimeError e then (self2, Inr errs) else (self2, Inl e)
      | Inr error \<Rightarrow>
          (self2, Inr (if truthy error then dict_set (fname f) error errs else errs)))"
  using assms by (simp add: field_step_def validation_empty)

text \<open>
  C1, as the code has it: on a type with \<^verbatim>\<open>strict=true\<close>, when the fields before \<open>f\<close>
  are processed without an exception and the value of \<open>f\<close> is still empty after
  coercion, and is not a \<^verbatim>\<open>None\<close> that \<^verbatim>\<open>_validation\<close> replaces by calling a callable
  static default, with \<^verbatim>\<open>required=true\<close> and no \<^verbatim>\<open>db_default\<close> in its metadata,
  construction fails at once with a \<^verbatim>\<open>ValueError\<close> whose message names the field:
  "Missing Required Field", or "Missing Primary Key" when the field is primary too.
  No payload mapping is built.
\<close>

theorem required_missing_strict_raises:
  assumes cols: "columns self = pre @ (k, f) # post"
    and pre: "post_init_loop E pre self [] = (self1, Inr errs)"
    and raw: "getattr self1 (fname f) = Inr raw"
    and calc: "calculate_value E self1 (fname f) raw f = (self2, Inr ())"
    and val: "getattr self2 (fname f) = Inr v"
    and empty: "is_empty v"
    and dflt: "\<not> (is_callable (fdefault f) \<and> v = PNone)"
    and strict: "meta_strict (Meta self) = PBool True"
    and req: "map_of (fmetadata f) ''required'' = Some (PBool True)"
    and esc: "''db_default'' \<notin> fst ` set (fmetadata f)"
  shows "post_init E self =
     (self2, Inl (ValueError (''::'' @ modelName self @ '':: Missing ''
        @ (if map_of (fmetadata f) ''primary'' = Some (PBool True)
           then ''Primary Key'' else ''Required Field'')
        @ '' *'' @ fname f @ ''*'')))"
proof -
  have c1: "same_class self self1" using pre by (rule post_init_loop_same_class)
  have c2: "same_class self1 self2" using calc by (rule calculate_value_same_class)
  from c1 c2 have m: "Meta self2 = Meta self" and n: "modelName self2 = modelName self"
    by (simp_all add: same_class_def)
  let ?err = "ValueError (''::'' @ modelName self @ '':: Missing ''
        @ (if map_of (fmetadata f) ''primary'' = Some (PBool True)
           then ''Primary Key'' else ''Required Field'')
        @ '' *'' @ fname f @ ''*'')"
  have sc: "structural_checks self2 (fname f) f = Inl ?err"
    using strict req esc m n by (simp add: structural_checks_def)
  have step: "field_step E f self1 errs = (self2, Inl ?err)"
    using field_step_empty [OF raw calc val empty dflt, of errs] sc by simp
  have "post_init_loop E (pre @ (k, f) # post) self [] = (self2, Inl ?err)"
    using pre step by (simp add: post_init_loop_append)
  then show ?thesis using cols by (simp add: post_init_def)
qed

lemma ana_missing_calc:
  "calculate_value env0 (ana_missing strict) ''name'' PNone name_field
     = ((ana_missing strict)\<lparr>attrs := (attrs (ana_missing strict))(''name'' \<mapsto> PNone)\<rparr>, Inr ())"
  by (rule trans [OF calculate_value_empty])
     (simp_all add: is_empty_def MISSING_TYPE_def name_field_def ana_missing_def Person_def)

theorem required_missing_strict_raises_witness:
  "meta_strict (Meta (ana_missing (PBool True))) = PBool True
   \<and> map_of (fmetadata name_field) ''required'' = Some (PBool True)
   \<and> is_empty PNone
   \<and> snd (post_init env0 (ana_missing (PBool True)))
       = Inl (ValueError ''::Person:: Missing Required Field *name*'')"
proof -
  let ?p = "ana_missing (PBool True)"
  have "post_init env0 ?p =
     (?p\<lparr>attrs := (attrs ?p)(''name'' \<mapsto> PNone)\<rparr>,
      Inl (ValueError (''::'' @ modelName ?p @ '':: Missing ''
        @ (if map_of (fmetadata name_field) ''primary'' = Some (PBool True)
           then ''Primary Key'' else ''Required Field'')
        @ '' *'' @ fname name_field @ ''*'')))"
  proof (rule required_missing_strict_raises
           [where pre = "[]" and k = "''name''" and post = "[(''age'', age_field)]"
              and ?self1.0 = "?p" and errs = "[]" and raw = PNone and v = PNone])
    show "calculate_value env0 ?p (fname name_field) PNone name_field
            = (?p\<lparr>attrs := (attrs ?p)(''name'' \<mapsto> PNone)\<rparr>, Inr ())"
      using ana_missing_calc [of "PBool True"] by (simp add: name_field_def)
  qed (simp_all add: ana_missing_def Person_def name_field_def getattr_def is_empty_def
         is_callable_def MISSING_TYPE_def)
  then have r: "snd (post_init env0 ?p)
                  = Inl (ValueError ''::Person:: Missing Required Field *name*'')"
    by (simp add: ana_missing_def Person_def name_field_def)
  have h: "meta_strict (Meta ?p) = PBool True
           \<and> map_of (fmetadata name_field) ''required'' = Some (PBool True) \<and> is_empty PNone"
    by (simp add: ana_missing_def Person_def name_field_def is_empty_def MISSING_TYPE_def)
  from r h show ?thesis by simp
qed

text \<open>
  C1 as stated fails: constructing the strict \<open>Person\<close> with \<open>name\<close> missing raises a
  \<^verbatim>\<open>ValueError\<close> with a message, not a validation error with a payload mapping.
\<close>

theorem required_missing_strict_counterexample:
  "snd (post_init env0 (ana_missing (PBool True)))
     = Inl (ValueError ''::Person:: Missing Required Field *name*'')"
  by (simp add: ana_missing_def Person_def name_field_def age_field_def
        calculate_value_def default_or_parse_def
        is_callable_def is_empty_def MISSING_TYPE_def dc_method_setattr.simps Let_def
        post_init_def field_step_def getattr_def validation_def default_for_none_def
        classify_def structural_checks_def)





section \<open>Lists of records\<close>

lemma coerced_item_PDict:
  "coerced_item E sub_type (PDict kv) x = (construct E sub_type (Kwargs kv) = Inr x)"
  by (simp add: coerced_item_def)

lemma build_items_ok:
  assumes "\<forall>kv. PDict kv \<in> set items \<longrightarrow> (\<exists>x. construct E sub_type (Kwargs kv) = Inr x)"
  shows "\<exists>new_items. build_items E sub_type items = Inr new_items
           \<and> list_all2 (coerced_item E sub_type) items new_items"
  using assms
proof (induction items)
  case Nil
  then show ?case by simp
next
  case (Cons item items)
  then obtain rest where rest: "build_items E sub_type items = Inr rest"
      "list_all2 (coerced_item E sub_type) items rest"
    by auto
  show ?case
  proof (cases "\<exists>kv. item = PDict kv")
    case True
    then obtain kv where kv: "item = PDict kv" by blast
    with Cons.prems obtain x where x: "construct E sub_type (Kwargs kv) = Inr x" by auto
    with kv rest show ?thesis by (simp add: coerced_item_PDict)
  next
    case False
    then have "(case item of PDict kv \<Rightarrow> construct E sub_type (Kwargs kv) | _ \<Rightarrow> Inr item) = Inr item"
      by (cases item) simp_all
    moreover from False have "coerced_item E sub_type item item"
      by (cases item) (simp_all add: coerced_item_def)
    ultimately show ?thesis using rest by simp
  qed
qed

lemma validation_list:
  "validation E self name (PList xs) f = (self, validator E f name (PList xs) (ftype f))"
  by (simp add: validation_def default_for_none_def classify_def is_callable_def)

lemma typing_generic_delegated:
  assumes "\<not> is_callable raw" and "\<not> is_dataclass (ftype f)" and "module_is_typing (ftype f)"
    and "parse_type E (ftype f) raw (dict_get (fmetadata f) ''encoder'' PNone) = Inr new_val"
  shows "calculate_value E self key raw f = dc_method_setattr E self key new_val"
  using assms by (simp add: calculate_value_def)

lemma list_branch_step:
  assumes ty: "ftype f = TAlias n (sub_type # ts)"
    and sub: "is_dataclass sub_type"
    and reg: "fname f \<in> set (field_names self)"
    and raw: "getattr self (fname f) = Inr (PList items)"
    and ok: "\<forall>kv. PDict kv \<in> set items \<longrightarrow> (\<exists>x. construct E sub_type (Kwargs kv) = Inr x)"
  shows "\<exists>new_items.
           fst (field_step E f self errs)
             = self\<lparr>attrs := (attrs self)(fname f \<mapsto> PList new_items)\<rparr>
           \<and> list_all2 (coerced_item E sub_type) items new_items"
proof -
  from build_items_ok [OF ok] obtain new_items where
    b: "build_items E sub_type items = Inr new_items"
    and l: "list_all2 (coerced_item E sub_type) items new_items"
    by blast
  let ?s = "self\<lparr>attrs := (attrs self)(fname f \<mapsto> PList new_items)\<rparr>"
  have c: "calculate_value E self (fname f) (PList items) f = (?s, Inr ())"
    using ty sub reg b by (simp add: calculate_value_def is_callable_def setattr_known)
  have g: "getattr ?s (fname f) = Inr (PList new_items)"
    by (simp add: getattr_def)
  have "fst (field_step E f self errs) = ?s"
    using raw c g by (simp add: field_step_def validation_list split: sum.splits)
  with l show ?thesis by blast
qed

lemma post_init_loop_split:
  assumes "post_init_loop E (pre @ (k, f) # post) self errs0 = (s, Inr errs)"
  shows "\<exists>self1 errs1 self2 errs2.
           post_init_loop E pre self errs0 = (self1, Inr errs1)
           \<and> field_step E f self1 errs1 = (self2, Inr errs2)
           \<and> post_init_loop E post self2 errs2 = (s, Inr errs)"
  using assms by (auto simp: post_init_loop_append split: prod.splits sum.splits)

lemma post_init_returns:
  assumes "post_init E self = (self', Inr ())"
  shows "\<exists>s errs. post_init_loop E (columns self) self [] = (s, Inr errs)
           \<and> (\<forall>k. k \<noteq> ''__errors__'' \<longrightarrow> k \<noteq> ''__valid__'' \<longrightarrow> attrs self' k = attrs s k)"
proof (cases "post_init_loop E (columns self) self []")
  case (Pair s r)
  show ?thesis
  proof (cases r)
    case (Inl e)
    with Pair assms show ?thesis by (simp add: post_init_def)
  next
    case (Inr errs)
    have "\<forall>k. k \<noteq> ''__errors__'' \<longrightarrow> k \<noteq> ''__valid__'' \<longrightarrow> attrs self' k = attrs s k"
      using assms Pair Inr
      by (auto simp: post_init_def split: if_splits prod.splits sum.splits
               dest!: setattr_attrs)
    with Pair Inr show ?thesis by blast
  qed
qed

text \<open>
  C7, as the code has it: take a type whose field names are distinct and a
  registered field \<open>f\<close>, not named \<^verbatim>\<open>__errors__\<close> or \<^verbatim>\<open>__valid__\<close>, whose declared type
  is a parameterized builtin list \<^verbatim>\<open>list[R]\<close> with \<open>R\<close> a dataclass, and whose raw value
  is a list.  When the keyword construction of every mapping element returns and
  construction returns, the instance holds for \<open>f\<close> a list of the same length and
  order in which each mapping element is replaced by the instance constructed from
  it and every other element is unchanged.  (A generic of the \<^verbatim>\<open>typing\<close> module,
  such as \<^verbatim>\<open>typing.List[R]\<close>, is handed to the Type Converter before this branch
  and is not covered.)
\<close>

theorem list_of_records_stored:
  assumes mem: "(k, f) \<in> set (columns self)"
    and dist: "distinct (map (\<lambda>c. fname (snd c)) (columns self))"
    and nm: "fname f \<noteq> ''__errors__''" "fname f \<noteq> ''__valid__''"
    and ty: "ftype f = TAlias n (sub_type # ts)"
    and sub: "is_dataclass sub_type"
    and reg: "fname f \<in> set (field_names self)"
    and raw: "getattr self (fname f) = Inr (PList items)"
    and ok: "\<forall>kv. PDict kv \<in> set items \<longrightarrow> (\<exists>x. construct E sub_type (Kwargs kv) = Inr x)"
    and returns: "post_init E self = (self', Inr ())"
  shows "\<exists>new_items. attrs self' (fname f) = Some (PList new_items)
           \<and> list_all2 (coerced_item E sub_type) items new_items"
proof -
  from mem obtain pre post where cols: "columns self = pre @ (k, f) # post"
    by (auto dest: split_list)
  from dist cols have n1: "fname f \<notin> (\<lambda>c. fname (snd c)) ` set pre"
    and n3: "fname f \<notin> (\<lambda>c. fname (snd c)) ` set post"
    by auto
  from post_init_returns [OF returns] obtain s errs where
    loop: "post_init_loop E (columns self) self [] = (s, Inr errs)"
    and fin: "attrs self' (fname f) = attrs s (fname f)"
    using nm by blast
  from loop cols post_init_loop_split [of E pre k f post self "[]" s errs]
  obtain self1 errs1 self2 errs2 where
    p1: "post_init_loop E pre self [] = (self1, Inr errs1)"
    and p2: "field_step E f self1 errs1 = (self2, Inr errs2)"
    and p3: "post_init_loop E post self2 errs2 = (s, Inr errs)"
    by auto
  have "attrs self1 (fname f) = attrs self (fname f)"
    using p1 n1 by (rule post_init_loop_attrs)
  with raw have raw1: "getattr self1 (fname f) = Inr (PList items)"
    by (simp add: getattr_def)
  have reg1: "fname f \<in> set (field_names self1)"
    using p1 reg by (rule post_init_loop_field_names)
  from list_branch_step [OF ty sub reg1 raw1 ok, of errs1] p2 obtain new_items where
    s2: "self2 = self1\<lparr>attrs := (attrs self1)(fname f \<mapsto> PList new_items)\<rparr>"
    and l: "list_all2 (coerced_item E sub_type) items new_items"
    by auto
  have "attrs s (fname f) = attrs self2 (fname f)"
    using p3 n3 by (rule post_init_loop_attrs)
  with s2 fin have "attrs self' (fname f) = Some (PList new_items)" by simp
  with l show ?thesis by blast
qed

theorem list_of_records_stored_witness:
  "ftype members_field = TAlias ''list'' [TRecord ''Person'']
   \<and> is_dataclass (TRecord ''Person'')
   \<and> getattr team ''members''
       = Inr (PList [PDict [(''name'', PStr ''Ana'')],
                     PInst ''Person'' [(''name'', PStr ''Bob''), (''age'', PInt 0)]])
   \<and> snd (post_init env0 team) = Inr ()
   \<and> attrs (fst (post_init env0 team)) ''members''
       = Some (PList [PInst ''Person'' [(''name'', PStr ''Ana''), (''age'', PInt 0)],
                      PInst ''Person'' [(''name'', PStr ''Bob''), (''age'', PInt 0)]])"
proof -
  let ?items = "[PDict [(''name'', PStr ''Ana'')],
                 PInst ''Person'' [(''name'', PStr ''Bob''), (''age'', PInt 0)]]"
  have h: "ftype members_field = TAlias ''list'' [TRecord ''Person'']
           \<and> fname members_field = ''members''
           \<and> is_dataclass (TRecord ''Person'')
           \<and> ''members'' \<in> set (field_names team)
           \<and> (''members'', members_field) \<in> set (columns team)
           \<and> distinct (map (\<lambda>c. fname (snd c)) (columns team))
           \<and> getattr team ''members'' = Inr (PList ?items)"
    by (simp add: members_field_def team_def single_def getattr_def)
  have ok: "\<forall>kv. PDict kv \<in> set ?items
              \<longrightarrow> (\<exists>x. construct env0 (TRecord ''Person'') (Kwargs kv) = Inr x)"
    by (simp add: env0_def dict_get_def)
  have r: "snd (post_init env0 team) = Inr ()"
    by (simp add: team_def single_def members_field_def env0_def dict_get_def
          calculate_value_def is_callable_def is_empty_def MISSING_TYPE_def
          dc_method_setattr.simps Let_def post_init_def field_step_def getattr_def
          validation_def default_for_none_def classify_def)
  then have "post_init env0 team = (fst (post_init env0 team), Inr ())"
    by (metis prod.collapse)
  from list_of_records_stored
         [of "''members''" members_field team "''list''" "TRecord ''Person''" "[]" ?items env0
             "fst (post_init env0 team)"] h ok this
  obtain new_items where
    s: "attrs (fst (post_init env0 team)) ''members'' = Some (PList new_items)"
    and l: "list_all2 (coerced_item env0 (TRecord ''Person'')) ?items new_items"
    by auto
  from l have "new_items = [PInst ''Person'' [(''name'', PStr ''Ana''), (''age'', PInt 0)],
                            PInst ''Person'' [(''name'', PStr ''Bob''), (''age'', PInt 0)]]"
    by (auto simp: list_all2_Cons1 coerced_item_def env0_def dict_get_def)
  with s h r show ?thesis by simp
qed

text \<open>
  C7 as stated fails: in \<^verbatim>\<open>Team(members=[{'bogus': 1}])\<close> the raw value is a list and
  the field is typed \<^verbatim>\<open>list[Person]\<close>, but \<^verbatim>\<open>Person(**{'bogus': 1})\<close> raises
  \<^verbatim>\<open>TypeError\<close>, the list branch catches only \<^verbatim>\<open>AttributeError\<close>, and construction
  fails: no list is stored.
\<close>

theorem list_of_records_counterexample:
  "ftype members_field = TAlias ''list'' [TRecord ''Person'']
   \<and> getattr team_bogus ''members'' = Inr (PList [PDict [(''bogus'', PInt 1)]])
   \<and> snd (post_init env0 team_bogus)
       = Inl (TypeError (''Person.__init__() got an unexpected keyword argument ''
                         @ [CHR 0x27] @ ''bogus'' @ [CHR 0x27]))"
  by (simp add: team_bogus_def single_def members_field_def env0_def
        calculate_value_def is_callable_def post_init_def field_step_def getattr_def)

section \<open>Errors of the Type Converter\<close>

lemma plain_parse_error_wrapped:
  assumes "\<not> is_callable raw" and "\<not> is_dataclass (ftype f)" and "\<not> module_is_typing (ftype f)"
    and "\<not> is_empty raw" and "\<forall>xs. raw \<noteq> PList xs"
    and "parse_type E (ftype f) raw (dict_get (fmetadata f) ''encoder'' PNone) = Inl ex"
  shows "calculate_value E self key raw f = (self, Inl (wrong_type E key f ex))"
  using assms by (cases raw) (simp_all add: calculate_value_def default_or_parse_def)

lemma typing_parse_error_not_wrapped:
  assumes "\<not> is_callable raw" and "\<not> is_dataclass (ftype f)" and "module_is_typing (ftype f)"
    and "parse_type E (ftype f) raw (dict_get (fmetadata f) ''encoder'' PNone) = Inl ex"
  shows "calculate_value E self key raw f = (self, Inl ex)"
  using assms by (simp add: calculate_value_def)

lemma coercion_error_leaves_constructor:
  assumes cols: "columns self = pre @ (k, f) # post"
    and pre: "post_init_loop E pre self [] = (self1, Inr errs)"
    and raw: "getattr self1 (fname f) = Inr raw"
    and calc: "calculate_value E self1 (fname f) raw f = (self1, Inl ex)"
  shows "post_init E self = (self1, Inl ex)"
proof -
  have "field_step E f self1 errs = (self1, Inl ex)"
    using raw calc by (simp add: field_step_def)
  then have "post_init_loop E (pre @ (k, f) # post) self [] = (self1, Inl ex)"
    using pre by (simp add: post_init_loop_append)
  then show ?thesis using cols by (simp add: post_init_def)
qed

lemma plain_coercion_error_wrapped:
  assumes cols: "columns self = pre @ (k, f) # post"
    and pre: "post_init_loop E pre self [] = (self1, Inr errs)"
    and raw: "getattr self1 (fname f) = Inr raw"
    and nc: "\<not> is_callable raw"
    and nd: "\<not> is_dataclass (ftype f)"
    and ty: "\<not> module_is_typing (ftype f)"
    and ne: "\<not> is_empty raw"
    and nl: "\<forall>xs. raw \<noteq> PList xs"
    and ex: "parse_type E (ftype f) raw (dict_get (fmetadata f) ''encoder'' PNone) = Inl ex"
  shows "post_init E self = (self1, Inl (wrong_type E (fname f) f ex))"
  using cols pre raw
  by (rule coercion_error_leaves_constructor)
     (rule plain_parse_error_wrapped [OF nc nd ty ne nl ex])

text \<open>
  C6, where the code departs from it: for a field whose declared type is a generic
  of the \<^verbatim>\<open>typing\<close> module, whatever exception the Type Converter raises is the
  exception construction fails with, on a strict and on a lenient type alike.  The
  failure is fatal, as the claim says, but the exception is the converter's own: it
  is not wrapped into \<^verbatim>\<open>ValueError('Wrong Type for {key}: {f.type}, error: {ex}')\<close>,
  as a \<^verbatim>\<open>TypeError\<close> or \<^verbatim>\<open>ValueError\<close> of the converter is for every other type.
\<close>

theorem typing_coercion_error_not_wrapped:
  assumes cols: "columns self = pre @ (k, f) # post"
    and pre: "post_init_loop E pre self [] = (self1, Inr errs)"
    and raw: "getattr self1 (fname f) = Inr raw"
    and nc: "\<not> is_callable raw"
    and nd: "\<not> is_dataclass (ftype f)"
    and ty: "module_is_typing (ftype f)"
    and ex: "parse_type E (ftype f) raw (dict_get (fmetadata f) ''encoder'' PNone) = Inl ex"
  shows "post_init E self = (self1, Inl ex)"
  using cols pre raw
  by (rule coercion_error_leaves_constructor)
     (rule typing_parse_error_not_wrapped [OF nc nd ty ex])

text \<open>
  The failing input \<^verbatim>\<open>Squad(members=[{'bogus': 1}])\<close> with
  \<^verbatim>\<open>members: typing.List[Person]\<close>: the converter raises on
  \<^verbatim>\<open>Person(**{'bogus': 1})\<close>, and construction fails with the converter's exception,
  which does not name the field \<open>members\<close>, on the strict and on the lenient type.
\<close>

theorem typing_coercion_error_not_wrapped_witness:
  "module_is_typing (ftype squad_field)
   \<and> parse_type env0 (ftype squad_field) (PList [PDict [(''bogus'', PInt 1)]]) PNone
       = Inl (TypeError (''Person.__init__() got an unexpected keyword argument ''
                         @ [CHR 0x27] @ ''bogus'' @ [CHR 0x27]))
   \<and> snd (post_init env0 (squad (PBool True)))
       = Inl (TypeError (''Person.__init__() got an unexpected keyword argument ''
                         @ [CHR 0x27] @ ''bogus'' @ [CHR 0x27]))
   \<and> snd (post_init env0 (squad (PBool False)))
       = Inl (TypeError (''Person.__init__() got an unexpected keyword argument ''
                         @ [CHR 0x27] @ ''bogus'' @ [CHR 0x27]))"
proof -
  let ?ex = "TypeError (''Person.__init__() got an unexpected keyword argument ''
                         @ [CHR 0x27] @ ''bogus'' @ [CHR 0x27])"
  have t: "module_is_typing (ftype squad_field)"
    by (simp add: squad_field_def)
  have c: "parse_type env0 (ftype squad_field) (PList [PDict [(''bogus'', PInt 1)]]) PNone
             = Inl ?ex"
    by (simp add: squad_field_def env0_def)
  have p: "post_init env0 (squad s) = (squad s, Inl ?ex)" for s
  proof (rule typing_coercion_error_not_wrapped
           [where pre = "[]" and k = "''members''" and f = squad_field and post = "[]"
              and errs = "[]" and raw = "PList [PDict [(''bogus'', PInt 1)]]"])
    show "parse_type env0 (ftype squad_field) (PList [PDict [(''bogus'', PInt 1)]])
            (dict_get (fmetadata squad_field) ''encoder'' PNone) = Inl ?ex"
      using c by (simp add: squad_field_def dict_get_def)
  qed (simp_all add: squad_def single_def squad_field_def getattr_def is_callable_def)
  from t c p [of "PBool True"] p [of "PBool False"] show ?thesis by simp
qed

section \<open>The schema document\<close>

lemma schema_additionalProperties:
  assumes "schema E cls cols0 True = Inr d"
  shows "\<exists>kv. d = PDict kv \<and> map_of kv ''additionalProperties'' = Some (meta_strict (Meta cls))"
  using assms by (auto simp: schema_def Let_def split: sum.splits prod.splits if_splits)

lemma person_schema_fields:
  "\<exists>p r. schema_fields env0 t [(''name'', name_field), (''age'', age_field)] [] [] = Inr (p, r)"
  by (simp add: schema_field_def get_ref_info_def env0_def name_field_def age_field_def
        dict_get_def Let_def)

text \<open>
  C8 at the failing input: \<open>ana\<close> is an instance of the strict \<open>Person\<close>, and the
  schema document of \<open>Person\<close> has \<^verbatim>\<open>additionalProperties\<close> true, which in a JSON
  Schema allows additional properties.
\<close>

theorem schema_strict_additionalProperties_true:
  "meta_strict (Meta ana) = PBool True
   \<and> (case schema env0 ana (columns ana) True of
         Inr (PDict kv) \<Rightarrow> map_of kv ''additionalProperties''
       | _ \<Rightarrow> None) = Some (PBool True)"
proof -
  have st: "meta_strict (Meta ana) = PBool True"
    by (simp add: ana_def Person_def)
  obtain p r where
    "schema_fields env0 ''Person'' [(''name'', name_field), (''age'', age_field)] [] [] = Inr (p, r)"
    using person_schema_fields [of "''Person''"] by blast
  moreover have "slugify_camelcase env0 ''Person'' = Inr ''Person''"
    by (simp add: env0_def)
  ultimately have "\<exists>d. schema env0 ana (columns ana) True = Inr d"
    by (simp add: schema_def Let_def ana_def Person_def doc_text_def del: schema_fields.simps)
  then obtain d where d: "schema env0 ana (columns ana) True = Inr d" by blast
  from schema_additionalProperties [OF d] st obtain kv where
    "d = PDict kv" "map_of kv ''additionalProperties'' = Some (PBool True)"
    by auto
  with d st show ?thesis by simp
qed


end
